theory Spec2Isabelle
  imports Main "HOL-Library.Sublist"
begin

section \<open>JavaScript values and promises\<close>

text \<open>
  The adapter is TypeScript compiled to JavaScript. Fields typed \<open>any\<close> (an activity's
  \<open>value\<close>, a thrown exception) hold a JavaScript value; the model keeps the kinds of
  value the adapter can tell apart. Numbers are integers here (fractions and NaN are left
  out); \<open>JError m\<close> is an \<open>Error\<close> object whose \<open>message\<close> is \<open>m\<close>.
\<close>

datatype jsval = JUndefined | JNull | JBool bool | JNum int | JStr string | JError string

text \<open>JavaScript's truthiness, as \<open>if (x)\<close>, \<open>x || y\<close> and \<open>x && y\<close> test it.\<close>

fun truthy :: "jsval \<Rightarrow> bool" where
  "truthy JUndefined = False"
| "truthy JNull = False"
| "truthy (JBool b) = b"
| "truthy (JNum n) = (n \<noteq> 0)"
| "truthy (JStr s) = (s \<noteq> [])"
| "truthy (JError m) = True"

text \<open>\<open>a || b\<close>\<close>

definition js_or :: "jsval \<Rightarrow> jsval \<Rightarrow> jsval" where
  "js_or a b = (if truthy a then a else b)"

text \<open>
  An optional string field (\<open>None\<close> is \<open>undefined\<close>) is truthy when it is present and
  not the empty string.
\<close>

definition truthy_str :: "string option \<Rightarrow> bool" where
  "truthy_str x = (case x of None \<Rightarrow> False | Some s \<Rightarrow> s \<noteq> [])"

text \<open>
  How an awaited promise ends: fulfilled with a value, rejected with the thrown value, or
  never settled (the adapter sets no timeout of its own).
\<close>

datatype 'a promise = Fulfilled 'a | Rejected jsval | Pending

section \<open>Activities, credentials, clients\<close>

record ChannelAccount =
  member_id :: "string option"

record ConversationAccount =
  conv_id :: "string option"

text \<open>
  \<open>Partial<Activity>\<close>: every field may be absent. The fields are the ones the adapter and
  the sample bot read: \<open>type\<close>, \<open>text\<close>, \<open>value\<close>, \<open>serviceUrl\<close>, \<open>conversation\<close> and
  \<open>membersAdded\<close>.
\<close>

record activity =
  atype :: "string option"
  atext :: "string option"
  avalue :: jsval
  serviceUrl :: "string option"
  conversation :: "ConversationAccount option"
  membersAdded :: "ChannelAccount list option"

record credentials =
  appId :: string
  appPassword :: string

record ConnectorClient =
  client_credentials :: credentials
  baseUri :: string

text \<open>A \<open>ResourceResponse\<close>; the empty object \<open>{}\<close> has no \<open>id\<close>.\<close>

record ResourceResponse =
  resource_id :: "string option"

definition empty_response :: ResourceResponse where
  "empty_response = \<lparr>resource_id = None\<rparr>"

section \<open>The outbound dispatcher: \<open>BotFrameworkAdapter.post\<close>\<close>

text \<open>
  What \<open>post\<close> does to the world, in the order it does it. Every event carries the index
  of the activity that \<open>next(i)\<close> was handling.
  \<^item> \<open>NewClient i url\<close>: \<open>new ConnectorClient(credentials, url)\<close>;
  \<^item> \<open>SetTimeout i d\<close>: \<open>setTimeout(callback, d)\<close>, and \<open>TimerFired i\<close>: the callback runs;
  \<^item> \<open>SendToConversation i url cid\<close>: the network call
    \<open>client.conversations.sendToConversation(cid, activity)\<close> on the client for \<open>url\<close>,
    and \<open>SendFulfilled i\<close> or \<open>SendRejected i\<close>: its promise settles;
  \<^item> \<open>Uncaught i e\<close>: the exception \<open>e\<close> leaves \<open>next(i)\<close> uncaught.
\<close>

datatype post_event =
    NewClient nat string
  | SetTimeout nat jsval
  | TimerFired nat
  | SendToConversation nat string string
  | SendFulfilled nat
  | SendRejected nat
  | Uncaught nat jsval

text \<open>
  The object \<open>clientCache\<close>. It starts as \<open>{}\<close> and only clients are ever stored in it,
  so it is its own properties and its prototype: \<open>Object.prototype\<close> (\<open>None\<close>) until a
  client is assigned to \<open>__proto__\<close>. A \<open>ConnectorClient\<close> is taken to be an ordinary
  object with data properties (it inherits \<open>hasOwnProperty\<close> and the \<open>__proto__\<close> accessor
  from \<open>Object.prototype\<close> and has no property or setter of its own by these names).
\<close>

record client_cache =
  own_props :: "string \<rightharpoonup> ConnectorClient"
  proto_client :: "ConnectorClient option"

text \<open>
  \<open>obj.hasOwnProperty(key)\<close>. The method is looked up on the object first: once a client
  is stored under the key \<open>hasOwnProperty\<close>, that client is what the lookup finds, and
  calling it throws a TypeError (\<open>Inl\<close>). Otherwise the method of \<open>Object.prototype\<close> answers
  whether \<open>key\<close> is an own property.
\<close>

definition cache_not_a_function :: jsval where
  "cache_not_a_function = JError ''clientCache.hasOwnProperty is not a function''"

definition hasOwnProperty :: "client_cache \<Rightarrow> string \<Rightarrow> jsval + bool" where
  "hasOwnProperty obj key =
     (case own_props obj ''hasOwnProperty'' of
        Some c \<Rightarrow> Inl cache_not_a_function
      | None \<Rightarrow> Inr (own_props obj key \<noteq> None))"

text \<open>
  \<open>obj[key] = c\<close>. The key \<open>__proto__\<close> is the accessor of \<open>Object.prototype\<close>: assigning
  an object to it replaces the prototype and creates no own property. Every other key
  becomes (or overwrites) an own property.
\<close>

definition set_property :: "client_cache \<Rightarrow> string \<Rightarrow> ConnectorClient \<Rightarrow> client_cache" where
  "set_property obj key c =
     (if key = ''__proto__'' then obj\<lparr>proto_client := Some c\<rparr>
      else obj\<lparr>own_props := (own_props obj)(key \<mapsto> c)\<rparr>)"

text \<open>
  \<open>obj[key]\<close>, read by \<open>createClient\<close> after the test and the assignment: the own
  property, and for \<open>__proto__\<close>, which is never an own property, the prototype that the
  assignment has just set.
\<close>

definition get_property :: "client_cache \<Rightarrow> string \<Rightarrow> ConnectorClient option" where
  "get_property obj key =
     (case own_props obj key of
        Some c \<Rightarrow> Some c
      | None \<Rightarrow> if key = ''__proto__'' then proto_client obj else None)"

text \<open>The closure variables of one \<open>post\<close> call.\<close>

record post_state =
  clientCache :: client_cache
  responses :: "ResourceResponse list"

text \<open>
  The remote channel is outside the program. Its answer to the send for the activity at
  position \<open>i\<close> is a parameter: fulfilled with a response or with nothing (\<open>None\<close>),
  rejected with an error, or never settled. The arguments of the call (the client's url,
  the conversation id) are read from the activity, so the position and the activity
  determine the call.
\<close>

type_synonym remote = "nat \<Rightarrow> activity \<Rightarrow> ResourceResponse option promise"

type_synonym post_run = "ResourceResponse list promise \<times> post_event list \<times> post_state"

text \<open>
  \<open>createClient\<close>: no client for an absent or empty \<open>serviceUrl\<close>; otherwise, when
  \<open>clientCache\<close> has no own property for the url, a new client is constructed and assigned
  under the url, and the result is what \<open>clientCache[serviceUrl]\<close> then reads. The
  TypeError of the \<open>hasOwnProperty\<close> call is not caught here (\<open>Inl\<close>).
\<close>

definition createClient ::
  "credentials \<Rightarrow> nat \<Rightarrow> string option \<Rightarrow> post_state
    \<Rightarrow> jsval + ConnectorClient option \<times> post_state \<times> post_event list" where
  "createClient creds i url s =
     (case url of
        None \<Rightarrow> Inr (None, s, [])
      | Some u \<Rightarrow>
          if u \<noteq> [] then
            (case hasOwnProperty (clientCache s) u of
               Inl err \<Rightarrow> Inl err
             | Inr cached \<Rightarrow>
                 if \<not> cached then
                   let client = \<lparr>client_credentials = creds, baseUri = u\<rparr>;
                       s' = s\<lparr>clientCache := set_property (clientCache s) u client\<rparr>
                   in Inr (get_property (clientCache s') u, s', [NewClient i u])
                 else Inr (get_property (clientCache s) u, s, []))
          else Inr (None, s, []))"

text \<open>\<open>activity.conversation && activity.conversation.id\<close>, when it is truthy.\<close>

definition conversation_id :: "activity \<Rightarrow> string option" where
  "conversation_id a =
     (case conversation a of
        None \<Rightarrow> None
      | Some c \<Rightarrow> if truthy_str (conv_id c) then conv_id c else None)"

text \<open>The delay handed to \<open>setTimeout\<close>: \<open>activity.value || 1\<close>.\<close>

definition timer_delay :: "activity \<Rightarrow> jsval" where
  "timer_delay a = js_or (avalue a) (JNum 1)"

text \<open>\<open>result || {}\<close>\<close>

definition result_or_empty :: "ResourceResponse option \<Rightarrow> ResourceResponse" where
  "result_or_empty r = (case r of None \<Rightarrow> empty_response | Some x \<Rightarrow> x)"

definition missing_conversation_id :: jsval where
  "missing_conversation_id = JError ''BotFrameworkAdapter: activity missing 'conversation.id'.''"

definition missing_serviceUrl :: jsval where
  "missing_serviceUrl = JError ''BotFrameworkAdapter: activity missing 'serviceUrl'.''"

text \<open>The events of a step come before the events of the steps after it.\<close>

definition emit :: "post_event list \<Rightarrow> post_run \<Rightarrow> post_run" where
  "emit evs r = (case r of (out, evs', s) \<Rightarrow> (out, evs @ evs', s))"

text \<open>
  \<open>next(i)\<close>. The callbacks of the timer and of the send call \<open>next(i + 1)\<close>; the model
  runs them in place. The result is how the promise of \<open>post\<close> ends, the events from
  step \<open>i\<close> on, and the closure variables at the end. An exception of \<open>createClient\<close>
  leaves \<open>next(i)\<close>, and the callback or the \<open>async\<close> executor that called it, without any
  call of \<open>resolve\<close> or \<open>reject\<close>: the promise of \<open>post\<close> never settles.
\<close>

function next_i :: "credentials \<Rightarrow> remote \<Rightarrow> activity list \<Rightarrow> nat \<Rightarrow> post_state \<Rightarrow> post_run" where
  "next_i creds remote activities i s =
     (if i < length activities then
        let a = activities ! i in
        if atype a = Some ''delay'' then
          emit [SetTimeout i (timer_delay a), TimerFired i]
            (next_i creds remote activities (i + 1)
               (s\<lparr>responses := responses s @ [empty_response]\<rparr>))
        else
          (case createClient creds i (serviceUrl a) s of
             Inl err \<Rightarrow> (Pending, [Uncaught i err], s)
           | Inr (Some client, s1, evs) \<Rightarrow>
               (case conversation_id a of
                  Some cid \<Rightarrow>
                    emit (evs @ [SendToConversation i (baseUri client) cid])
                      (case remote i a of
                         Fulfilled result \<Rightarrow>
                           emit [SendFulfilled i]
                             (next_i creds remote activities (i + 1)
                                (s1\<lparr>responses := responses s1 @ [result_or_empty result]\<rparr>))
                       | Rejected err \<Rightarrow> (Rejected err, [SendRejected i], s1)
                       | Pending \<Rightarrow> (Pending, [], s1))
                | None \<Rightarrow> (Rejected missing_conversation_id, evs, s1))
           | Inr (None, s1, evs) \<Rightarrow> (Rejected missing_serviceUrl, evs, s1))
      else (Fulfilled (responses s), [], s))"
  by pat_completeness auto
termination
  by (relation "measure (\<lambda>(creds, remote, activities, i, s). length activities - i)") auto

text \<open>
  \<open>post\<close>: a new, empty client cache and response list, then \<open>next(0)\<close>. The caller sees
  how the promise ends; the events are what the world sees. The cache is a local of the
  call and is not part of what \<open>post\<close> returns or takes.
\<close>

definition post_start :: post_state where
  "post_start = \<lparr>clientCache = \<lparr>own_props = Map.empty, proto_client = None\<rparr>, responses = []\<rparr>"

definition post :: "credentials \<Rightarrow> remote \<Rightarrow> activity list \<Rightarrow> ResourceResponse list promise \<times> post_event list" where
  "post creds remote activities =
     (case next_i creds remote activities 0 post_start of (out, evs, s) \<Rightarrow> (out, evs))"

subsection \<open>Reading a run of \<open>post\<close>\<close>

text \<open>
  The start and the completion of the work for one activity: the timer set and fired, or
  the send issued and settled. Constructing a client is neither, and nor is an exception.
\<close>

datatype mark = Started nat | Completed nat

fun mark_of :: "post_event \<Rightarrow> mark option" where
  "mark_of (NewClient i u) = None"
| "mark_of (SetTimeout i d) = Some (Started i)"
| "mark_of (TimerFired i) = Some (Completed i)"
| "mark_of (SendToConversation i u c) = Some (Started i)"
| "mark_of (SendFulfilled i) = Some (Completed i)"
| "mark_of (SendRejected i) = Some (Completed i)"
| "mark_of (Uncaught i e) = None"

fun marks :: "post_event list \<Rightarrow> mark list" where
  "marks [] = []"
| "marks (e # es) = (case mark_of e of None \<Rightarrow> marks es | Some m \<Rightarrow> m # marks es)"

text \<open>
  The strictly sequential schedule for the activities at positions \<open>i\<close> up to \<open>n\<close>:
  start \<open>i\<close>, complete \<open>i\<close>, start \<open>i + 1\<close>, complete \<open>i + 1\<close>, and so on.
\<close>

definition schedule_from :: "nat \<Rightarrow> nat \<Rightarrow> mark list" where
  "schedule_from i n = concat (map (\<lambda>j. [Started j, Completed j]) [i..<n])"

text \<open>
  The response that belongs to position \<open>i\<close>: the empty response for a delay, and for a
  send what the remote channel answered (or the empty response when it answered nothing).
\<close>

definition expected_response :: "remote \<Rightarrow> activity list \<Rightarrow> nat \<Rightarrow> ResourceResponse" where
  "expected_response remote activities i =
     (if atype (activities ! i) = Some ''delay'' then empty_response
      else case remote i (activities ! i) of
             Fulfilled result \<Rightarrow> result_or_empty result
           | Rejected err \<Rightarrow> empty_response
           | Pending \<Rightarrow> empty_response)"

text \<open>The event constructs a client for the url \<open>u\<close>.\<close>

fun constructs :: "string \<Rightarrow> post_event \<Rightarrow> bool" where
  "constructs u (NewClient i v) = (v = u)"
| "constructs u (SetTimeout i d) = False"
| "constructs u (TimerFired i) = False"
| "constructs u (SendToConversation i v c) = False"
| "constructs u (SendFulfilled i) = False"
| "constructs u (SendRejected i) = False"
| "constructs u (Uncaught i e) = False"

text \<open>The event is a network call.\<close>

fun is_send :: "post_event \<Rightarrow> bool" where
  "is_send (SendToConversation i u c) = True"
| "is_send (NewClient i u) = False"
| "is_send (SetTimeout i d) = False"
| "is_send (TimerFired i) = False"
| "is_send (SendFulfilled i) = False"
| "is_send (SendRejected i) = False"
| "is_send (Uncaught i e) = False"

text \<open>
  The cache is still a plain dictionary: nothing is stored under \<open>hasOwnProperty\<close>, the
  prototype is untouched, and every cached client is the client for the url it is cached
  under.
\<close>

definition cache_ok :: "post_state \<Rightarrow> bool" where
  "cache_ok s =
     (own_props (clientCache s) ''hasOwnProperty'' = None \<and>
      proto_client (clientCache s) = None \<and>
      (\<forall>u c. own_props (clientCache s) u = Some c \<longrightarrow> baseUri c = u))"

text \<open>
  The two keys at which the object \<open>clientCache\<close> is not a dictionary, and the activities
  addressed to them.
\<close>

definition reserved_key :: "string \<Rightarrow> bool" where
  "reserved_key u = (u = ''__proto__'' \<or> u = ''hasOwnProperty'')"

definition to_reserved_key :: "activity \<Rightarrow> bool" where
  "to_reserved_key a = (case serviceUrl a of None \<Rightarrow> False | Some u \<Rightarrow> reserved_key u)"

fun fulfils :: "'a promise \<Rightarrow> bool" where
  "fulfils (Fulfilled x) = True"
| "fulfils (Rejected e) = False"
| "fulfils Pending = False"

text \<open>
  What the channel client is expected to do with a \<open>serviceUrl\<close> that is one of these two
  words and no address: no send to it is fulfilled. (The client is outside the program;
  the properties of the cache below say where they rest on this.)
\<close>

definition reserved_sends_fail :: "remote \<Rightarrow> activity list \<Rightarrow> bool" where
  "reserved_sends_fail remote activities =
     list_all (\<lambda>i. to_reserved_key (activities ! i) \<longrightarrow> \<not> fulfils (remote i (activities ! i)))
       [0..<length activities]"

subsection \<open>The timer\<close>

text \<open>
  \<open>setTimeout\<close> belongs to the runtime, Node.js, not to the program. Its documented rule:
  the delay is converted to a number, and when that is larger than 2147483647, less than
  1 or not a number, the delay is set to 1. So this is the wait, in milliseconds, that
  \<open>setTimeout(callback, d)\<close> makes of \<open>d\<close>. The conversion of a string to a number is not
  modelled (\<open>None\<close>).
\<close>

definition TIMEOUT_MAX :: int where
  "TIMEOUT_MAX = 2147483647"

fun node_timeout :: "jsval \<Rightarrow> int option" where
  "node_timeout (JNum n) = Some (if 1 \<le> n \<and> n \<le> TIMEOUT_MAX then n else 1)"
| "node_timeout (JBool b) = Some 1"
| "node_timeout JUndefined = Some 1"
| "node_timeout JNull = Some 1"
| "node_timeout (JError m) = Some 1"
| "node_timeout (JStr s) = None"

text \<open>The wait of the delay activity \<open>a\<close>: what the timer makes of \<open>activity.value || 1\<close>.\<close>

definition delay_wait :: "activity \<Rightarrow> int option" where
  "delay_wait a = node_timeout (timer_delay a)"

section \<open>The inbound adapter: \<open>listen\<close> and \<open>processRequest\<close>\<close>

text \<open>
  The receive-handler: given the activity, what it sent out (its replies, whatever they
  are) and how the promise it returns ends. A handler that throws is a rejected promise.
\<close>

type_synonym 'r handler = "activity \<Rightarrow> 'r list \<times> unit promise"

text \<open>
  The adapter object. \<open>onReceive\<close> is \<open>undefined\<close> (\<open>None\<close>) until a handler is
  registered.
\<close>

record 'r adapter =
  adapter_credentials :: credentials
  credentialsProvider :: credentials
  onReceive :: "'r handler option"

text \<open>
  The constructor: absent settings, an absent \<open>appId\<close> or an absent \<open>appPassword\<close> are the
  empty string.
\<close>

definition BotFrameworkAdapter :: "(string option \<times> string option) option \<Rightarrow> 'r adapter" where
  "BotFrameworkAdapter settings =
     (let (sid, spw) = (case settings of None \<Rightarrow> (Some [], Some []) | Some x \<Rightarrow> x);
          c = \<lparr>appId = (case sid of None \<Rightarrow> [] | Some x \<Rightarrow> x),
               appPassword = (case spw of None \<Rightarrow> [] | Some x \<Rightarrow> x)\<rparr>
      in \<lparr>adapter_credentials = c, credentialsProvider = c, onReceive = None\<rparr>)"

text \<open>
  The request as the adapter reads it: \<open>body\<close> when the transport has parsed one (\<open>None\<close>
  is a falsy \<open>req.body\<close>), the headers, the chunks the \<open>data\<close> events deliver, and whether
  the \<open>end\<close> event ever comes.
\<close>

record web_request =
  body :: "activity option"
  headers :: "string \<rightharpoonup> string"
  chunks :: "string list"
  ended :: bool

text \<open>
  What the adapter does while it handles a request:
  \<^item> \<open>JsonParse s\<close>: \<open>JSON.parse(s)\<close>;
  \<^item> \<open>AssertValidActivity a h\<close>: the call of the token validator with the activity and the
    authorization header;
  \<^item> \<open>ConsoleLog v\<close>: \<open>console.log(v)\<close>;
  \<^item> \<open>OnReceive a\<close>: the receive-handler is invoked with the activity;
  \<^item> \<open>ResSend status b\<close>: \<open>res.send(status, b)\<close>; \<open>res.send(status)\<close> has \<open>b\<close> undefined.
\<close>

datatype http_event =
    JsonParse string
  | AssertValidActivity activity string
  | ConsoleLog jsval
  | OnReceive activity
  | ResSend nat jsval

text \<open>
  The result of handling a request: the events, and the exception that left the adapter's
  code uncaught, if one did.
\<close>

type_synonym handled = "http_event list \<times> jsval option"

text \<open>
  The token validator (\<open>JwtTokenValidation.assertValidActivity\<close>) and \<open>JSON.parse\<close> are
  outside the program and are parameters. A body that parses is read as an activity, as
  the adapter's cast does; one that does not parse throws (\<open>Inl\<close>).
\<close>

type_synonym validator = "activity \<Rightarrow> string \<Rightarrow> credentials \<Rightarrow> unit promise"

type_synonym parser = "string \<Rightarrow> jsval + activity"

text \<open>\<open>req.headers["authorization"] || ''\<close>\<close>

definition authorization_header :: "web_request \<Rightarrow> string" where
  "authorization_header req =
     (case headers req ''authorization'' of None \<Rightarrow> [] | Some h \<Rightarrow> if h \<noteq> [] then h else [])"

text \<open>
  \<open>err.message\<close>: reading a property of \<open>undefined\<close> or \<open>null\<close> throws a TypeError
  (\<open>Inl\<close>); an \<open>Error\<close> object has its message; other values have no such property.
\<close>

definition cannot_read_message :: "string \<Rightarrow> jsval" where
  "cannot_read_message of_what = JError (''Cannot read property 'message' of '' @ of_what)"

fun message :: "jsval \<Rightarrow> jsval + jsval" where
  "message JUndefined = Inl (cannot_read_message ''undefined'')"
| "message JNull = Inl (cannot_read_message ''null'')"
| "message (JError m) = Inr (JStr m)"
| "message (JBool b) = Inr JUndefined"
| "message (JNum n) = Inr JUndefined"
| "message (JStr s) = Inr JUndefined"

text \<open>Calling \<open>this.onReceive\<close> while it is \<open>undefined\<close> throws this TypeError.\<close>

definition not_a_function :: jsval where
  "not_a_function = JError ''this.onReceive is not a function''"

text \<open>The \<open>catch\<close> block of the second \<open>try\<close>: \<open>res.send(500, err.message)\<close>.\<close>

definition send_500 :: "jsval \<Rightarrow> handled" where
  "send_500 err = (case message err of Inl e \<Rightarrow> ([], Some e) | Inr m \<Rightarrow> ([ResSend 500 m], None))"

text \<open>
  \<open>processRequest\<close>, with \<open>activity\<close> the \<open>req.body\<close> that \<open>listen\<close> has found or set.
\<close>

definition processRequest :: "'r adapter \<Rightarrow> validator \<Rightarrow> activity \<Rightarrow> web_request \<Rightarrow> handled" where
  "processRequest this validate activity req =
     (let authHeader = authorization_header req in
      case validate activity authHeader (credentialsProvider this) of
        Rejected err \<Rightarrow> ([AssertValidActivity activity authHeader, ConsoleLog err, ResSend 401 JUndefined], None)
      | Pending \<Rightarrow> ([AssertValidActivity activity authHeader], None)
      | Fulfilled ok \<Rightarrow>
          (case onReceive this of
             None \<Rightarrow>
               (case send_500 not_a_function of
                  (evs, exn) \<Rightarrow> ([AssertValidActivity activity authHeader] @ evs, exn))
           | Some receive \<Rightarrow>
               (case receive activity of
                  (replies, Fulfilled done) \<Rightarrow>
                    ([AssertValidActivity activity authHeader, OnReceive activity, ResSend 202 JUndefined], None)
                | (replies, Rejected err) \<Rightarrow>
                    (case send_500 err of
                       (evs, exn) \<Rightarrow>
                         ([AssertValidActivity activity authHeader, OnReceive activity] @ evs, exn))
                | (replies, Pending) \<Rightarrow>
                    ([AssertValidActivity activity authHeader, OnReceive activity], None))))"

text \<open>
  The middleware \<open>listen()\<close> returns, applied to a request. With a body it goes straight
  to \<open>processRequest\<close>. Without one it collects the chunks and, at the \<open>end\<close> event,
  parses them; an exception of \<open>JSON.parse\<close> is not caught.
\<close>

definition listen :: "'r adapter \<Rightarrow> validator \<Rightarrow> parser \<Rightarrow> web_request \<Rightarrow> handled" where
  "listen this validate parse req =
     (case body req of
        Some activity \<Rightarrow> processRequest this validate activity req
      | None \<Rightarrow>
          if ended req then
            let requestData = concat (chunks req) in
            (case parse requestData of
               Inl err \<Rightarrow> ([JsonParse requestData], Some err)
             | Inr activity \<Rightarrow>
                 (case processRequest this validate activity (req\<lparr>body := Some activity\<rparr>) of
                    (evs, exn) \<Rightarrow> (JsonParse requestData # evs, exn)))
          else ([], None))"

text \<open>The event is a call of \<open>JSON.parse\<close>.\<close>

fun is_JsonParse :: "http_event \<Rightarrow> bool" where
  "is_JsonParse (JsonParse s) = True"
| "is_JsonParse (OnReceive a) = False"
| "is_JsonParse (ResSend status b) = False"
| "is_JsonParse (AssertValidActivity a h) = False"
| "is_JsonParse (ConsoleLog v) = False"

section \<open>The sample bot: the handler of \<open>app.js\<close>\<close>

text \<open>What the handler hands to \<open>context.reply\<close>: a hero card (title, text), an attachment by
  url (url, content type), or a text.\<close>

datatype reply = HeroCard string string | ContentUrl string string | TextReply string

definition instructions :: string where
  "instructions = ''Welcome to the Bot to showcase the DirectLine API. Send 'Show me a hero card' or 'Send me a BotFramework image' to see how the DirectLine client supports custom channel data. Any other message will be echoed.''"

text \<open>
  \<open>String.prototype.trim\<close> and \<open>toLowerCase\<close>. A character here is a code unit below 256
  (Latin-1). In that range the white space and line terminators are tab, line feed,
  vertical tab, form feed, carriage return, space and the no-break space U+00A0; the
  upper-case letters are A to Z and U+00C0 to U+00DE without the sign U+00D7, each 32
  below its lower-case letter.
\<close>

definition js_whitespace :: "char \<Rightarrow> bool" where
  "js_whitespace c = (c \<in> set [CHR '' '', CHR 0x09, CHR 0x0A, CHR 0x0B, CHR 0x0C, CHR 0x0D, CHR 0xA0])"

definition trim :: "string \<Rightarrow> string" where
  "trim s = rev (dropWhile js_whitespace (rev (dropWhile js_whitespace s)))"

definition toLowerCase :: "string \<Rightarrow> string" where
  "toLowerCase s =
     map (\<lambda>c. if (65::nat) \<le> of_char c \<and> of_char c \<le> (90::nat) \<or>
                  (192::nat) \<le> of_char c \<and> of_char c \<le> (222::nat) \<and> of_char c \<noteq> (215::nat)
               then char_of (of_char c + (32::nat)) else c) s"

text \<open>
  Reading \<open>membersAdded[0]\<close> when \<open>membersAdded\<close> is \<open>undefined\<close>, and reading \<open>.id\<close> of the
  \<open>undefined\<close> that \<open>[][0]\<close> is, both throw a TypeError. (The wording of the message is the
  engine's.)
\<close>

definition cannot_read_0 :: jsval where
  "cannot_read_0 = JError ''Cannot read property '0' of undefined''"

definition cannot_read_id :: jsval where
  "cannot_read_id = JError ''Cannot read property 'id' of undefined''"

text \<open>The first \<open>if\<close> of the handler: the replies to a message.\<close>

definition message_replies :: "activity \<Rightarrow> reply list" where
  "message_replies request =
     (if atype request = Some ''message'' then
        let t = toLowerCase (trim (case atext request of None \<Rightarrow> [] | Some x \<Rightarrow> x)) in
        if t = ''show me a hero card'' then
          [HeroCard ''Sample Hero Card'' ''Displayed in the DirectLine client'']
        else if t = ''send me a botframework image'' then
          [ContentUrl ''https://reef-free.imgix.net/content/places/whitehaven-beach-39957.jpg?w=768&h=433&fit=crop&crop=center&auto=format'' ''image/jpeg'']
        else [TextReply ''sorry I didnt get that'']
      else [])"

text \<open>
  The function given to \<open>bot.onReceive\<close>, applied to a context whose \<open>request\<close> is the
  activity: the replies it made, and whether it returned or threw.
\<close>

definition bot_onReceive :: "reply handler" where
  "bot_onReceive request =
     (let replies = message_replies request in
      if atype request = Some ''conversationUpdate'' then
        (case membersAdded request of
           None \<Rightarrow> (replies, Rejected cannot_read_0)
         | Some [] \<Rightarrow> (replies, Rejected cannot_read_id)
         | Some (m # ms) \<Rightarrow>
             if member_id m = Some ''default-user''
             then (replies @ [TextReply instructions], Fulfilled ())
             else (replies, Fulfilled ()))
      else (replies, Fulfilled ()))"

text \<open>
  Modelled from the spec: the class \<open>Bot\<close> of the package botbuilder, which takes the
  function given to \<open>bot.onReceive\<close> and registers it as the adapter's \<open>onReceive\<close>, is
  not among the sources. The spec (4.2) has the adapter invoke the registered
  receive-handler with the parsed activity and await it, and counts a handler that raises
  as a handler failure; so here the adapter's \<open>onReceive\<close> is the handler of \<open>app.js\<close>
  itself. The settings are the application id and password of the environment.
\<close>

definition sample_adapter :: "(string option \<times> string option) option \<Rightarrow> reply adapter" where
  "sample_adapter settings = (BotFrameworkAdapter settings)\<lparr>onReceive := Some bot_onReceive\<rparr>"

section \<open>Example inputs\<close>

definition example_credentials :: credentials where
  "example_credentials = \<lparr>appId = ''app'', appPassword = ''secret''\<rparr>"

definition example_message :: "string option \<Rightarrow> string option \<Rightarrow> activity" where
  "example_message u c =
     \<lparr>atype = Some ''message'', atext = Some ''Show me a hero card'', avalue = JUndefined,
      serviceUrl = u, conversation = Some \<lparr>conv_id = c\<rparr>, membersAdded = None\<rparr>"

definition example_delay :: "jsval \<Rightarrow> activity" where
  "example_delay v =
     \<lparr>atype = Some ''delay'', atext = None, avalue = v,
      serviceUrl = None, conversation = None, membersAdded = None\<rparr>"

definition example_update :: "ChannelAccount list option \<Rightarrow> activity" where
  "example_update ms =
     \<lparr>atype = Some ''conversationUpdate'', atext = None, avalue = JUndefined,
      serviceUrl = Some ''https://directline.example'', conversation = Some \<lparr>conv_id = Some ''c1''\<rparr>,
      membersAdded = ms\<rparr>"

text \<open>A channel that answers the first send with a response id and every other send with
  nothing, and one that fails the send at position \<open>k\<close>.\<close>

definition remote_ok :: remote where
  "remote_ok i a = Fulfilled (if i = 0 then Some \<lparr>resource_id = Some ''r0''\<rparr> else None)"

definition remote_failing_at :: "nat \<Rightarrow> remote" where
  "remote_failing_at k i a = (if i = k then Rejected (JError ''ECONNRESET'') else remote_ok i a)"

text \<open>A validator that accepts the header \<open>Bearer good\<close> and nothing else, and a parser
  that reads one text as the example message.\<close>

definition example_validate :: validator where
  "example_validate a h p = (if h = ''Bearer good'' then Fulfilled () else Rejected (JError ''Unauthorized''))"

definition example_parse :: parser where
  "example_parse s =
     (if s = ''{}'' then Inr (example_message None None)
      else Inl (JError ''Unexpected token''))"

definition example_request :: "activity option \<Rightarrow> string option \<Rightarrow> string list \<Rightarrow> web_request" where
  "example_request b h cs =
     \<lparr>body = b, headers = (case h of None \<Rightarrow> Map.empty | Some x \<Rightarrow> [''authorization'' \<mapsto> x]),
      chunks = cs, ended = True\<rparr>"

text \<open>A handler that replies once and returns, and one that throws.\<close>

definition example_handler :: "reply handler" where
  "example_handler a = ([TextReply ''ok''], Fulfilled ())"

definition example_throwing_handler :: "reply handler" where
  "example_throwing_handler a = ([], Rejected (JError ''boom''))"

text \<open>The batch of the spec's scenario: a message, a delay of 50 ms, a message.\<close>

definition example_batch :: "activity list" where
  "example_batch =
     [example_message (Some ''https://a'') (Some ''c1''),
      example_delay (JNum 50),
      example_message (Some ''https://a'') (Some ''c1'')]"

definition example_adapter :: "reply handler \<Rightarrow> reply adapter" where
  "example_adapter h = (BotFrameworkAdapter None)\<lparr>onReceive := Some h\<rparr>"

section \<open>Properties of the outbound dispatcher\<close>

declare next_i.simps [simp del]

text \<open>
  C10: \<open>post\<close> of the empty list resolves with the empty response list, and does nothing
  else: no event at all, so no client is constructed and no network call is made.
\<close>

theorem post_empty: "post creds remote [] = (Fulfilled [], [])"
  by (simp add: post_def post_start_def next_i.simps)

subsection \<open>One step of \<open>next(i)\<close>\<close>

lemma emit_emit: "emit xs (emit ys r) = emit (xs @ ys) r"
  by (cases r) (simp add: emit_def)

lemma emit_Nil: "emit [] r = r"
  by (cases r) (simp add: emit_def)

lemma emit_eq: "emit xs r = (out, evs, s') \<longleftrightarrow> (\<exists>ys. r = (out, ys, s') \<and> evs = xs @ ys)"
  by (cases r) (auto simp: emit_def)

lemma next_i_done: "length acts \<le> i \<Longrightarrow> next_i creds remote acts i s = (Fulfilled (responses s), [], s)"
  by (simp add: next_i.simps)

lemma next_i_delay:
  "i < length acts \<Longrightarrow> atype (acts ! i) = Some ''delay'' \<Longrightarrow>
   next_i creds remote acts i s =
     emit [SetTimeout i (timer_delay (acts ! i)), TimerFired i]
       (next_i creds remote acts (Suc i) (s\<lparr>responses := responses s @ [empty_response]\<rparr>))"
  by (subst next_i.simps) simp

lemma next_i_send:
  "i < length acts \<Longrightarrow> atype (acts ! i) \<noteq> Some ''delay'' \<Longrightarrow>
   next_i creds remote acts i s =
     (case createClient creds i (serviceUrl (acts ! i)) s of
             Inl err \<Rightarrow> (Pending, [Uncaught i err], s)
           | Inr (Some client, s1, evs) \<Rightarrow>
               (case conversation_id (acts ! i) of
                  Some cid \<Rightarrow>
                    emit (evs @ [SendToConversation i (baseUri client) cid])
                      (case remote i (acts ! i) of
                         Fulfilled result \<Rightarrow>
                           emit [SendFulfilled i]
                             (next_i creds remote acts (i + 1)
                                (s1\<lparr>responses := responses s1 @ [result_or_empty result]\<rparr>))
                       | Rejected err \<Rightarrow> (Rejected err, [SendRejected i], s1)
                       | Pending \<Rightarrow> (Pending, [], s1))
                | None \<Rightarrow> (Rejected missing_conversation_id, evs, s1))
           | Inr (None, s1, evs) \<Rightarrow> (Rejected missing_serviceUrl, evs, s1))"
  by (subst next_i.simps) (simp add: Let_def)

lemma next_i_take:
  "k \<le> n \<Longrightarrow> n \<le> length acts \<Longrightarrow>
   next_i creds remote (take n acts) k s = (Fulfilled rs, evs, s') \<Longrightarrow>
   next_i creds remote acts k s = emit evs (next_i creds remote acts n s')"
proof (induction "n - k" arbitrary: k s evs)
  case 0
  then have "k = n" by simp
  with 0 show ?case by (simp add: next_i_done emit_Nil)
next
  case (Suc d)
  then have kn: "k < n" and kl: "k < length acts" and kt: "k < length (take n acts)" by auto
  have nth: "take n acts ! k = acts ! k" using kn by simp
  show ?case
  proof (cases "atype (acts ! k) = Some ''delay''")
    case True
    let ?s1 = "s\<lparr>responses := responses s @ [empty_response]\<rparr>"
    from Suc.prems(3) obtain ys where
      r: "next_i creds remote (take n acts) (Suc k) ?s1 = (Fulfilled rs, ys, s')"
      and e: "evs = [SetTimeout k (timer_delay (acts ! k)), TimerFired k] @ ys"
      using True kt nth by (auto simp: next_i_delay emit_eq)
    have "next_i creds remote acts (Suc k) ?s1 = emit ys (next_i creds remote acts n s')"
      using Suc.hyps(1)[of "Suc k" ?s1 ys] Suc.hyps(2) kn Suc.prems(2) r by simp
    then show ?thesis using True kl e by (simp add: next_i_delay emit_emit)
  next
    case False
    obtain cr where cc0: "createClient creds k (serviceUrl (acts ! k)) s = cr"
      by simp
    from Suc.prems(3) False kt nth cc0 obtain cl s1 ev where cr: "cr = Inr (cl, s1, ev)"
      by (cases cr) (auto simp: next_i_send)
    note cc = cc0[unfolded cr]
    from Suc.prems(3) False kt nth cc obtain client cid result ys where
      cl: "cl = Some client" and ci: "conversation_id (acts ! k) = Some cid"
      and re: "remote k (acts ! k) = Fulfilled result"
      and r: "next_i creds remote (take n acts) (Suc k)
                (s1\<lparr>responses := responses s1 @ [result_or_empty result]\<rparr>) = (Fulfilled rs, ys, s')"
      and e: "evs = ev @ [SendToConversation k (baseUri client) cid] @ [SendFulfilled k] @ ys"
      by (auto simp: next_i_send emit_eq split: option.splits promise.splits)
    let ?s2 = "s1\<lparr>responses := responses s1 @ [result_or_empty result]\<rparr>"
    have "next_i creds remote acts (Suc k) ?s2 = emit ys (next_i creds remote acts n s')"
      using Suc.hyps(1)[of "Suc k" ?s2 ys] Suc.hyps(2) kn Suc.prems(2) r by simp
    then show ?thesis using False kl e cc cl ci re by (simp add: next_i_send emit_emit)
  qed
qed

lemma createClient_facts:
  assumes "createClient creds i url s = Inr (cl, s1, nc)"
  shows "responses s1 = responses s"
    and "cl = None \<longleftrightarrow> \<not> truthy_str url"
    and "cl = None \<Longrightarrow> s1 = s \<and> nc = []"
    and "nc = [] \<and> s1 = s \<or>
         (\<exists>u. url = Some u \<and> u \<noteq> [] \<and> nc = [NewClient i u] \<and> own_props (clientCache s) u = None)"
  using assms
  by (auto simp: createClient_def hasOwnProperty_def get_property_def set_property_def
      truthy_str_def Let_def split: option.splits if_splits sum.splits)

lemma createClient_falsy:
  "\<not> truthy_str url \<Longrightarrow> createClient creds i url s = Inr (None, s, [])"
  by (auto simp: createClient_def truthy_str_def split: option.splits)

lemma next_i_run_induct [consumes 0, case_names finished delay threw no_client no_conversation rejected pending sent]:
  assumes finished: "\<And>i s. length acts \<le> i \<Longrightarrow> P i s (Fulfilled (responses s), [], s)"
    and delay: "\<And>i s out evs s'. i < length acts \<Longrightarrow> atype (acts ! i) = Some ''delay'' \<Longrightarrow>
        next_i creds remote acts (Suc i) (s\<lparr>responses := responses s @ [empty_response]\<rparr>) = (out, evs, s') \<Longrightarrow>
        P (Suc i) (s\<lparr>responses := responses s @ [empty_response]\<rparr>) (out, evs, s') \<Longrightarrow>
        P i s (out, [SetTimeout i (timer_delay (acts ! i)), TimerFired i] @ evs, s')"
    and threw: "\<And>i s err. i < length acts \<Longrightarrow> atype (acts ! i) \<noteq> Some ''delay'' \<Longrightarrow>
        createClient creds i (serviceUrl (acts ! i)) s = Inl err \<Longrightarrow>
        P i s (Pending, [Uncaught i err], s)"
    and no_client: "\<And>i s s1 nc. i < length acts \<Longrightarrow> atype (acts ! i) \<noteq> Some ''delay'' \<Longrightarrow>
        createClient creds i (serviceUrl (acts ! i)) s = Inr (None, s1, nc) \<Longrightarrow>
        P i s (Rejected missing_serviceUrl, nc, s1)"
    and no_conversation: "\<And>i s client s1 nc. i < length acts \<Longrightarrow> atype (acts ! i) \<noteq> Some ''delay'' \<Longrightarrow>
        createClient creds i (serviceUrl (acts ! i)) s = Inr (Some client, s1, nc) \<Longrightarrow>
        conversation_id (acts ! i) = None \<Longrightarrow>
        P i s (Rejected missing_conversation_id, nc, s1)"
    and rejected: "\<And>i s client s1 nc cid err. i < length acts \<Longrightarrow> atype (acts ! i) \<noteq> Some ''delay'' \<Longrightarrow>
        createClient creds i (serviceUrl (acts ! i)) s = Inr (Some client, s1, nc) \<Longrightarrow>
        conversation_id (acts ! i) = Some cid \<Longrightarrow> remote i (acts ! i) = Rejected err \<Longrightarrow>
        P i s (Rejected err, nc @ [SendToConversation i (baseUri client) cid, SendRejected i], s1)"
    and pending: "\<And>i s client s1 nc cid. i < length acts \<Longrightarrow> atype (acts ! i) \<noteq> Some ''delay'' \<Longrightarrow>
        createClient creds i (serviceUrl (acts ! i)) s = Inr (Some client, s1, nc) \<Longrightarrow>
        conversation_id (acts ! i) = Some cid \<Longrightarrow> remote i (acts ! i) = Pending \<Longrightarrow>
        P i s (Pending, nc @ [SendToConversation i (baseUri client) cid], s1)"
    and sent: "\<And>i s client s1 nc cid result out evs s'. i < length acts \<Longrightarrow> atype (acts ! i) \<noteq> Some ''delay'' \<Longrightarrow>
        createClient creds i (serviceUrl (acts ! i)) s = Inr (Some client, s1, nc) \<Longrightarrow>
        conversation_id (acts ! i) = Some cid \<Longrightarrow> remote i (acts ! i) = Fulfilled result \<Longrightarrow>
        next_i creds remote acts (Suc i) (s1\<lparr>responses := responses s1 @ [result_or_empty result]\<rparr>) = (out, evs, s') \<Longrightarrow>
        P (Suc i) (s1\<lparr>responses := responses s1 @ [result_or_empty result]\<rparr>) (out, evs, s') \<Longrightarrow>
        P i s (out, nc @ [SendToConversation i (baseUri client) cid, SendFulfilled i] @ evs, s')"
  shows "P i s (next_i creds remote acts i s)"
proof (induction "length acts - i" arbitrary: i s)
  case 0
  then show ?case using finished[of i s] by (simp add: next_i_done)
next
  case (Suc d)
  then have il: "i < length acts" by simp
  show ?case
  proof (cases "atype (acts ! i) = Some ''delay''")
    case True
    let ?s1 = "s\<lparr>responses := responses s @ [empty_response]\<rparr>"
    obtain out evs s' where r: "next_i creds remote acts (Suc i) ?s1 = (out, evs, s')"
      by (cases "next_i creds remote acts (Suc i) ?s1") auto
    have "P (Suc i) ?s1 (next_i creds remote acts (Suc i) ?s1)"
      using Suc.hyps(1)[of "Suc i" ?s1] Suc.hyps(2) by simp
    then show ?thesis using delay[OF il True r] r il True
      by (simp add: next_i_delay emit_def)
  next
    case False
    show ?thesis
    proof (cases "createClient creds i (serviceUrl (acts ! i)) s")
      case (Inl err)
      then show ?thesis using threw[OF il False Inl] il False by (simp add: next_i_send)
    next
      case (Inr triple)
      then obtain cl s1 nc where cc: "createClient creds i (serviceUrl (acts ! i)) s = Inr (cl, s1, nc)"
        by (cases triple) auto
    show ?thesis
    proof (cases cl)
      case None
      then show ?thesis using no_client[OF il False] cc il False by (simp add: next_i_send)
    next
      case (Some client)
      note cl = this
      show ?thesis
      proof (cases "conversation_id (acts ! i)")
        case None
        then show ?thesis using no_conversation[OF il False] cc cl il False
          by (simp add: next_i_send)
      next
        case (Some cid)
        note ci = this
        show ?thesis
        proof (cases "remote i (acts ! i)")
          case (Fulfilled result)
          let ?s2 = "s1\<lparr>responses := responses s1 @ [result_or_empty result]\<rparr>"
          obtain out evs s' where r: "next_i creds remote acts (Suc i) ?s2 = (out, evs, s')"
            by (cases "next_i creds remote acts (Suc i) ?s2") auto
          have "P (Suc i) ?s2 (next_i creds remote acts (Suc i) ?s2)"
            using Suc.hyps(1)[of "Suc i" ?s2] Suc.hyps(2) by simp
          then show ?thesis
            using sent[OF il False cc[unfolded cl] ci Fulfilled r] r il False cc cl ci Fulfilled
            by (simp add: next_i_send emit_def)
        next
          case (Rejected err)
          then show ?thesis using rejected[OF il False cc[unfolded cl] ci Rejected] il False cc cl ci
            by (simp add: next_i_send emit_def)
        next
          case Pending
          then show ?thesis using pending[OF il False cc[unfolded cl] ci Pending] il False cc cl ci
            by (simp add: next_i_send emit_def)
        qed
      qed
    qed
    qed
  qed
qed

subsection \<open>Order and responses\<close>

lemma marks_append: "marks (xs @ ys) = marks xs @ marks ys"
  by (induction xs) (auto split: option.splits)

lemma schedule_from_step:
  "i < n \<Longrightarrow> schedule_from i n = [Started i, Completed i] @ schedule_from (Suc i) n"
  by (simp add: schedule_from_def upt_conv_Cons)

lemma schedule_from_empty: "n \<le> i \<Longrightarrow> schedule_from i n = []"
  by (simp add: schedule_from_def)

lemma createClient_marks: "createClient creds i url s = Inr (cl, s1, nc) \<Longrightarrow> marks nc = []"
  by (auto simp: createClient_def hasOwnProperty_def Let_def split: option.splits if_splits sum.splits)

lemma createClient_responses: "createClient creds i url s = Inr (cl, s1, nc) \<Longrightarrow> responses s1 = responses s"
  by (auto simp: createClient_def hasOwnProperty_def Let_def split: option.splits if_splits sum.splits)

lemma next_i_in_order:
  "prefix (marks (fst (snd (next_i creds remote acts i s)))) (schedule_from i (length acts))"
proof (induction i s rule: next_i_run_induct[where creds = creds and remote = remote and acts = acts])
  case (finished i s)
  then show ?case by simp
next
  case (delay i s out evs s')
  then show ?case by (simp add: schedule_from_step)
next
  case (threw i s err)
  then show ?case by simp
next
  case (no_client i s s1 nc)
  then show ?case by (simp add: createClient_marks)
next
  case (no_conversation i s client s1 nc)
  then show ?case by (simp add: createClient_marks)
next
  case (rejected i s client s1 nc cid err)
  then show ?case by (simp add: createClient_marks marks_append schedule_from_step)
next
  case (pending i s client s1 nc cid)
  then show ?case by (simp add: createClient_marks marks_append schedule_from_step)
next
  case (sent i s client s1 nc cid result out evs s')
  then show ?case by (simp add: createClient_marks marks_append schedule_from_step)
qed

lemma next_i_fulfilled:
  "fst (next_i creds remote acts i s) = Fulfilled rs \<Longrightarrow>
     rs = responses s @ map (expected_response remote acts) [i..<length acts] \<and>
     marks (fst (snd (next_i creds remote acts i s))) = schedule_from i (length acts) \<and>
     responses (snd (snd (next_i creds remote acts i s))) = rs"
proof (induction i s rule: next_i_run_induct[where creds = creds and remote = remote and acts = acts])
  case (finished i s)
  then show ?case by (simp add: schedule_from_empty)
next
  case (delay i s out evs s')
  then show ?case by (simp add: schedule_from_step upt_conv_Cons expected_response_def)
next
  case (threw i s err)
  then show ?case by simp
next
  case (no_client i s s1 nc)
  then show ?case by simp
next
  case (no_conversation i s client s1 nc)
  then show ?case by simp
next
  case (rejected i s client s1 nc cid err)
  then show ?case by simp
next
  case (pending i s client s1 nc cid)
  then show ?case by simp
next
  case (sent i s client s1 nc cid result out evs s')
  then show ?case
    by (simp add: createClient_marks createClient_responses marks_append schedule_from_step
        upt_conv_Cons expected_response_def)
qed

lemma fst_post: "fst (post creds remote acts) = fst (next_i creds remote acts 0 post_start)"
  by (simp add: post_def split: prod.splits)

lemma snd_post: "snd (post creds remote acts) = fst (snd (next_i creds remote acts 0 post_start))"
  by (simp add: post_def split: prod.splits)

lemma schedule_from_Suc: "schedule_from 0 (Suc n) = schedule_from 0 n @ [Started n, Completed n]"
  by (simp add: schedule_from_def)

lemma length_schedule_from: "length (schedule_from 0 n) = 2 * n"
  by (induction n) (simp_all add: schedule_from_Suc schedule_from_empty)

lemma schedule_from_nth:
  "k < 2 * n \<Longrightarrow>
     schedule_from 0 n ! k = (if even k then Started (k div 2) else Completed (k div 2))"
proof (induction n)
  case 0
  then show ?case by simp
next
  case (Suc n)
  show ?case
  proof (cases "k < 2 * n")
    case True
    then show ?thesis using Suc.IH
      by (simp add: schedule_from_Suc nth_append length_schedule_from)
  next
    case False
    then have "k = 2 * n \<or> k = Suc (2 * n)" using Suc.prems by auto
    then show ?thesis
      by (auto simp: schedule_from_Suc nth_append length_schedule_from)
  qed
qed

lemma prefix_schedule_started:
  assumes "prefix ms (schedule_from 0 n)" and "k < length ms" and "ms ! k = Started (Suc i)"
  shows "0 < k \<and> ms ! (k - 1) = Completed i"
proof -
  obtain zs where z: "schedule_from 0 n = ms @ zs" using assms(1) by (auto simp: prefix_def)
  have len: "length ms \<le> 2 * n"
    using z length_schedule_from[of n] by (metis le_add1 length_append)
  have nth: "ms ! j = schedule_from 0 n ! j" if "j < length ms" for j
    using that z by (simp add: nth_append)
  have k: "schedule_from 0 n ! k = Started (Suc i)" using nth[OF assms(2)] assms(3) by simp
  have kn: "k < 2 * n" using assms(2) len by linarith
  have ev: "even k \<and> k div 2 = Suc i"
    using k schedule_from_nth[OF kn] by (auto split: if_splits)
  then have pos: "0 < k" by (cases k) auto
  have odd: "odd (k - 1) \<and> (k - 1) div 2 = i" using ev pos by (auto elim!: evenE)
  have "schedule_from 0 n ! (k - 1) = Completed i"
    using schedule_from_nth[of "k - 1" n] kn odd by simp
  moreover have "ms ! (k - 1) = schedule_from 0 n ! (k - 1)" using nth[of "k - 1"] assms(2) by simp
  ultimately show ?thesis using pos by simp
qed

text \<open>
  C1: \<open>post\<close> works through the activities strictly in input order. The starts and
  completions among its events (timer set and fired, send issued and settled) form an
  initial segment of the sequential schedule start 0, complete 0, start 1, complete 1, ...:
  wherever the work for activity \<open>i + 1\<close> starts, the mark just before it is the
  completion of activity \<open>i\<close>. When \<open>post\<close> resolves, the whole schedule has run and the responses are, in
  input order, the response of each position.
\<close>

theorem post_in_order:
  "prefix (marks (snd (post creds remote acts))) (schedule_from 0 (length acts)) \<and>
   (k < length (marks (snd (post creds remote acts))) \<and>
    marks (snd (post creds remote acts)) ! k = Started (Suc i) \<longrightarrow>
      0 < k \<and> marks (snd (post creds remote acts)) ! (k - 1) = Completed i) \<and>
   (fst (post creds remote acts) = Fulfilled rs \<longrightarrow>
      marks (snd (post creds remote acts)) = schedule_from 0 (length acts) \<and>
      rs = map (expected_response remote acts) [0..<length acts])"
proof -
  have p: "prefix (marks (snd (post creds remote acts))) (schedule_from 0 (length acts))"
    using next_i_in_order[of creds remote acts 0 post_start] by (simp add: snd_post)
  have f: "marks (snd (post creds remote acts)) = schedule_from 0 (length acts) \<and>
      rs = map (expected_response remote acts) [0..<length acts]"
    if "fst (post creds remote acts) = Fulfilled rs"
    using next_i_fulfilled[of creds remote acts 0 post_start rs] that
    by (simp add: fst_post snd_post post_start_def)
  show ?thesis using p f prefix_schedule_started[OF p] by blast
qed

subsection \<open>The client cache\<close>

lemma reserved_sends_failD:
  assumes "reserved_sends_fail remote acts" and "i < length acts"
    and "remote i (acts ! i) = Fulfilled r"
  shows "\<forall>u. serviceUrl (acts ! i) = Some u \<longrightarrow> \<not> reserved_key u"
proof (intro allI impI notI)
  fix u
  assume u: "serviceUrl (acts ! i) = Some u" and r: "reserved_key u"
  have "to_reserved_key (acts ! i) \<longrightarrow> \<not> fulfils (remote i (acts ! i))"
    using assms(1,2) by (simp add: reserved_sends_fail_def list_all_iff)
  then show False using u r assms(3) by (simp add: to_reserved_key_def)
qed

lemma reserved_sends_fail_take:
  "reserved_sends_fail remote acts \<Longrightarrow> reserved_sends_fail remote (take n acts)"
  by (auto simp: reserved_sends_fail_def list_all_iff)

lemma cache_ok_responses: "cache_ok (s\<lparr>responses := rs\<rparr>) = cache_ok s"
  by (simp add: cache_ok_def)

lemma createClient_no_throw: "cache_ok s \<Longrightarrow> createClient creds i url s \<noteq> Inl err"
  by (auto simp: createClient_def hasOwnProperty_def cache_ok_def Let_def
      split: option.splits if_splits sum.splits)

lemma createClient_cache_ok:
  "createClient creds i url s = Inr (cl, s1, nc) \<Longrightarrow> cache_ok s \<Longrightarrow>
     \<forall>u. url = Some u \<longrightarrow> \<not> reserved_key u \<Longrightarrow> cache_ok s1"
  by (auto simp: createClient_def hasOwnProperty_def set_property_def get_property_def
      cache_ok_def reserved_key_def Let_def split: option.splits if_splits sum.splits)

lemma createClient_baseUri:
  "createClient creds i url s = Inr (Some client, s1, nc) \<Longrightarrow> cache_ok s \<Longrightarrow>
     url = Some (baseUri client)"
  by (auto simp: createClient_def hasOwnProperty_def set_property_def get_property_def
      cache_ok_def Let_def split: option.splits if_splits sum.splits)

lemma createClient_constructs:
  "createClient creds i url s = Inr (cl, s1, nc) \<Longrightarrow>
     length (filter (constructs u) nc) \<le> (if own_props (clientCache s) u = None then 1 else 0)"
  by (auto simp: createClient_def hasOwnProperty_def Let_def
      split: option.splits if_splits sum.splits)

lemma createClient_cached:
  "createClient creds i url s = Inr (cl, s1, nc) \<Longrightarrow>
     \<forall>v. url = Some v \<longrightarrow> \<not> reserved_key v \<Longrightarrow>
     (own_props (clientCache s) u \<noteq> None \<longrightarrow> own_props (clientCache s1) u \<noteq> None) \<and>
     (filter (constructs u) nc \<noteq> [] \<longrightarrow> own_props (clientCache s1) u \<noteq> None)"
  by (auto simp: createClient_def hasOwnProperty_def set_property_def reserved_key_def Let_def
      split: option.splits if_splits sum.splits)

lemma createClient_new:
  "createClient creds i url s = Inr (Some client, s1, nc) \<Longrightarrow> cache_ok s \<Longrightarrow>
     (own_props (clientCache s) (baseUri client) = None \<longrightarrow> nc = [NewClient i (baseUri client)]) \<and>
     (\<forall>u. own_props (clientCache s) u = None \<and> own_props (clientCache s1) u \<noteq> None \<longrightarrow>
          nc = [NewClient i u])"
  by (auto simp: createClient_def hasOwnProperty_def set_property_def get_property_def
      cache_ok_def Let_def split: option.splits if_splits sum.splits)

lemma next_i_cache_ok:
  assumes b: "reserved_sends_fail remote acts"
  shows "cache_ok s \<longrightarrow> (\<forall>rs. fst (next_i creds remote acts i s) = Fulfilled rs \<longrightarrow>
           cache_ok (snd (snd (next_i creds remote acts i s))))"
proof (induction i s rule: next_i_run_induct[where creds = creds and remote = remote and acts = acts])
  case (sent i s client s1 nc cid result out evs s')
  show ?case
  proof (intro impI allI)
    fix rs
    assume ok: "cache_ok s" and f: "fst (out, nc @ [SendToConversation i (baseUri client) cid, SendFulfilled i] @ evs, s') = Fulfilled rs"
    have "cache_ok s1"
      using createClient_cache_ok[OF sent(3) ok] reserved_sends_failD[OF b sent(1) sent(5)] by simp
    then show "cache_ok (snd (snd (out, nc @ [SendToConversation i (baseUri client) cid, SendFulfilled i] @ evs, s')))"
      using sent(7) f by (simp add: cache_ok_responses)
  qed
qed (auto simp: cache_ok_responses)

lemma next_i_constructs:
  assumes b: "reserved_sends_fail remote acts"
  shows "cache_ok s \<longrightarrow>
     length (filter (constructs u) (fst (snd (next_i creds remote acts i s))))
       \<le> (if own_props (clientCache s) u = None then 1 else 0)"
proof (induction i s rule: next_i_run_induct[where creds = creds and remote = remote and acts = acts])
  case (finished i s)
  then show ?case by simp
next
  case (delay i s out evs s')
  then show ?case by (simp add: cache_ok_responses)
next
  case (threw i s err)
  then show ?case by simp
next
  case (no_client i s s1 nc)
  then show ?case using createClient_constructs[OF no_client(3), of u] by simp
next
  case (no_conversation i s client s1 nc)
  then show ?case using createClient_constructs[OF no_conversation(3), of u] by simp
next
  case (rejected i s client s1 nc cid err)
  then show ?case using createClient_constructs[OF rejected(3), of u] by simp
next
  case (pending i s client s1 nc cid)
  then show ?case using createClient_constructs[OF pending(3), of u] by simp
next
  case (sent i s client s1 nc cid result out evs s')
  show ?case
  proof
    assume ok: "cache_ok s"
    have nr: "\<forall>v. serviceUrl (acts ! i) = Some v \<longrightarrow> \<not> reserved_key v"
      using reserved_sends_failD[OF b sent(1) sent(5)] .
    have ok1: "cache_ok s1" using createClient_cache_ok[OF sent(3) ok nr] .
    have ih: "length (filter (constructs u) evs)
        \<le> (if own_props (clientCache s1) u = None then 1 else 0)"
      using sent(7) ok1 by (simp add: cache_ok_responses)
    have c: "length (filter (constructs u) nc) \<le> (if own_props (clientCache s) u = None then 1 else 0)"
      using createClient_constructs[OF sent(3), of u] .
    have k: "(own_props (clientCache s) u \<noteq> None \<longrightarrow> own_props (clientCache s1) u \<noteq> None) \<and>
        (filter (constructs u) nc \<noteq> [] \<longrightarrow> own_props (clientCache s1) u \<noteq> None)"
      using createClient_cached[OF sent(3) nr, of u] .
    show "length (filter (constructs u)
        (fst (snd (out, nc @ [SendToConversation i (baseUri client) cid, SendFulfilled i] @ evs, s'))))
        \<le> (if own_props (clientCache s) u = None then 1 else 0)"
    proof (cases "filter (constructs u) nc = []")
      case True
      then show ?thesis using ih k by (auto split: if_splits)
    next
      case False
      then have "own_props (clientCache s1) u \<noteq> None" using k by simp
      then have "length (filter (constructs u) evs) \<le> 0" using ih by (simp split: if_splits)
      then have "filter (constructs u) evs = []" by simp
      then show ?thesis using c by simp
    qed
  qed
qed

lemma next_i_send_event:
  assumes b: "reserved_sends_fail remote acts"
  shows "cache_ok s \<longrightarrow> SendToConversation j u c \<in> set (fst (snd (next_i creds remote acts i s))) \<longrightarrow>
     i \<le> j \<and> j < length acts \<and> atype (acts ! j) \<noteq> Some ''delay'' \<and>
     serviceUrl (acts ! j) = Some u \<and> conversation_id (acts ! j) = Some c \<and>
     (own_props (clientCache s) u = None \<longrightarrow>
        (\<exists>e \<in> set (fst (snd (next_i creds remote acts i s))). constructs u e))"
proof (induction i s rule: next_i_run_induct[where creds = creds and remote = remote and acts = acts])
  case (finished i s)
  then show ?case by simp
next
  case (delay i s out evs s')
  then show ?case by (auto simp: cache_ok_responses)
next
  case (threw i s err)
  then show ?case by simp
next
  case (no_client i s s1 nc)
  then show ?case using createClient_facts(3)[OF no_client(3)] by auto
next
  case (no_conversation i s client s1 nc)
  then show ?case using createClient_facts(4)[OF no_conversation(3)] by auto
next
  case (rejected i s client s1 nc cid err)
  show ?case
  proof (intro impI)
    assume ok: "cache_ok s"
    have "serviceUrl (acts ! i) = Some (baseUri client)" using createClient_baseUri[OF rejected(3) ok] .
    moreover have "own_props (clientCache s) (baseUri client) = None \<longrightarrow> nc = [NewClient i (baseUri client)]"
      using createClient_new[OF rejected(3) ok] by auto
    moreover have "nc = [] \<or> (\<exists>v. nc = [NewClient i v])"
      using createClient_facts(4)[OF rejected(3)] by auto
    moreover assume "SendToConversation j u c \<in> set (fst (snd (Rejected err, nc @ [SendToConversation i (baseUri client) cid, SendRejected i], s1)))"
    ultimately show "i \<le> j \<and> j < length acts \<and> atype (acts ! j) \<noteq> Some ''delay'' \<and>
     serviceUrl (acts ! j) = Some u \<and> conversation_id (acts ! j) = Some c \<and>
     (own_props (clientCache s) u = None \<longrightarrow> (\<exists>e \<in> set (fst (snd (Rejected err, nc @ [SendToConversation i (baseUri client) cid, SendRejected i], s1))). constructs u e))"
      using rejected(1,2,4) by auto
  qed
next
  case (pending i s client s1 nc cid)
  show ?case
  proof (intro impI)
    assume ok: "cache_ok s"
    have "serviceUrl (acts ! i) = Some (baseUri client)" using createClient_baseUri[OF pending(3) ok] .
    moreover have "own_props (clientCache s) (baseUri client) = None \<longrightarrow> nc = [NewClient i (baseUri client)]"
      using createClient_new[OF pending(3) ok] by auto
    moreover have "nc = [] \<or> (\<exists>v. nc = [NewClient i v])"
      using createClient_facts(4)[OF pending(3)] by auto
    moreover assume "SendToConversation j u c \<in> set (fst (snd (Pending :: ResourceResponse list promise, nc @ [SendToConversation i (baseUri client) cid], s1)))"
    ultimately show "i \<le> j \<and> j < length acts \<and> atype (acts ! j) \<noteq> Some ''delay'' \<and>
     serviceUrl (acts ! j) = Some u \<and> conversation_id (acts ! j) = Some c \<and>
     (own_props (clientCache s) u = None \<longrightarrow> (\<exists>e \<in> set (fst (snd (Pending :: ResourceResponse list promise, nc @ [SendToConversation i (baseUri client) cid], s1))). constructs u e))"
      using pending(1,2,4) by auto
  qed
next
  case (sent i s client s1 nc cid result out evs s')
  show ?case
  proof (intro impI)
    assume ok: "cache_ok s"
      and mem: "SendToConversation j u c \<in> set (fst (snd (out, nc @ [SendToConversation i (baseUri client) cid, SendFulfilled i] @ evs, s')))"
    let ?s2 = "s1\<lparr>responses := responses s1 @ [result_or_empty result]\<rparr>"
    have nr: "\<forall>v. serviceUrl (acts ! i) = Some v \<longrightarrow> \<not> reserved_key v"
      using reserved_sends_failD[OF b sent(1) sent(5)] .
    have ok1: "cache_ok s1" using createClient_cache_ok[OF sent(3) ok nr] .
    have url: "serviceUrl (acts ! i) = Some (baseUri client)" using createClient_baseUri[OF sent(3) ok] .
    have new: "own_props (clientCache s) (baseUri client) = None \<longrightarrow> nc = [NewClient i (baseUri client)]"
      "\<forall>u. own_props (clientCache s) u = None \<and> own_props (clientCache s1) u \<noteq> None \<longrightarrow> nc = [NewClient i u]"
      using createClient_new[OF sent(3) ok] by auto
    have nc: "nc = [] \<or> (\<exists>v. nc = [NewClient i v])"
      using createClient_facts(4)[OF sent(3)] by auto
    from mem nc consider (here) "j = i" "u = baseUri client" "c = cid" | (later) "SendToConversation j u c \<in> set evs"
      by auto
    then show "i \<le> j \<and> j < length acts \<and> atype (acts ! j) \<noteq> Some ''delay'' \<and>
     serviceUrl (acts ! j) = Some u \<and> conversation_id (acts ! j) = Some c \<and>
     (own_props (clientCache s) u = None \<longrightarrow> (\<exists>e \<in> set (fst (snd (out, nc @ [SendToConversation i (baseUri client) cid, SendFulfilled i] @ evs, s'))). constructs u e))"
    proof cases
      case here
      then show ?thesis using sent(1,2,4) url new(1) by auto
    next
      case later
      then have ih: "Suc i \<le> j \<and> j < length acts \<and> atype (acts ! j) \<noteq> Some ''delay'' \<and>
          serviceUrl (acts ! j) = Some u \<and> conversation_id (acts ! j) = Some c \<and>
          (own_props (clientCache ?s2) u = None \<longrightarrow> (\<exists>e \<in> set evs. constructs u e))"
        using sent(7) ok1 by (simp add: cache_ok_responses)
      show ?thesis
      proof (cases "own_props (clientCache s1) u = None")
        case True
        then show ?thesis using ih by auto
      next
        case False
        then show ?thesis using ih new(2) by auto
      qed
    qed
  qed
qed

subsection \<open>Runs that reach position \<open>i\<close>\<close>

lemma cache_ok_start: "cache_ok post_start"
  by (simp add: cache_ok_def post_start_def)

lemma post_reached:
  assumes "i \<le> length acts" and "fst (post creds remote (take i acts)) = Fulfilled rs"
  obtains s' where
    "next_i creds remote acts 0 post_start =
       emit (snd (post creds remote (take i acts))) (next_i creds remote acts i s')"
    and "responses s' = rs" and "reserved_sends_fail remote acts \<longrightarrow> cache_ok s'"
proof -
  obtain out evs s' where r: "next_i creds remote (take i acts) 0 post_start = (out, evs, s')"
    by (cases "next_i creds remote (take i acts) 0 post_start") auto
  with assms(2) have out: "out = Fulfilled rs" by (simp add: fst_post)
  have evs: "snd (post creds remote (take i acts)) = evs" using r by (simp add: snd_post)
  have "next_i creds remote acts 0 post_start = emit evs (next_i creds remote acts i s')"
    using next_i_take[of 0 i acts creds remote post_start rs evs s'] assms(1) r out by simp
  moreover have "responses s' = rs"
    using next_i_fulfilled[of creds remote "take i acts" 0 post_start rs] r out by simp
  moreover have "cache_ok s'" if "reserved_sends_fail remote acts"
    using next_i_cache_ok[OF reserved_sends_fail_take[OF that], of post_start creds i 0]
      r out cache_ok_start by simp
  ultimately show thesis using that evs by simp
qed

lemma post_emit:
  "next_i creds remote acts 0 post_start = emit evs r \<Longrightarrow>
     post creds remote acts = (fst r, evs @ fst (snd r))"
  by (cases r) (simp add: post_def emit_def)

lemma createClient_at:
  assumes ok: "cache_ok s" and u: "url = Some u" "u \<noteq> []"
  obtains client s1 nc where "createClient creds i url s = Inr (Some client, s1, nc)"
    and "baseUri client = u" and "nc = [] \<or> nc = [NewClient i u]"
proof -
  obtain cl s1 nc where cc: "createClient creds i url s = Inr (cl, s1, nc)"
    using createClient_no_throw[OF ok, of creds i url]
    by (cases "createClient creds i url s") auto
  have "cl \<noteq> None" using createClient_facts(2)[OF cc] u by (simp add: truthy_str_def)
  then obtain client where cl: "cl = Some client" by auto
  have uri: "baseUri client = u" using createClient_baseUri[OF cc[unfolded cl] ok] u by simp
  have nc: "nc = [] \<or> nc = [NewClient i u]"
    using createClient_facts(4)[OF cc] u by auto
  show thesis using that[OF cc[unfolded cl] uri nc] .
qed

text \<open>
  C2: when the activities before position \<open>i\<close> have all gone through (\<open>post\<close> of the
  first \<open>i\<close> activities resolves, with the responses \<open>rs\<close> collected so far) and the send
  for the activity at position \<open>i\<close> is rejected with \<open>err\<close>, then \<open>post\<close> rejects with
  \<open>err\<close> and returns none of \<open>rs\<close>, and its last events are the send for \<open>i\<close> and its
  rejection: nothing is sent, and no timer is set, for any later activity. This rests on
  the channel client fulfilling no send to the words \<open>__proto__\<close> and \<open>hasOwnProperty\<close>
  (\<open>reserved_sends_fail\<close>): after a fulfilled send to \<open>hasOwnProperty\<close> the cache throws
  instead.
\<close>

theorem post_remote_failure:
  assumes "reserved_sends_fail remote acts"
    and "i < length acts"
    and "fst (post creds remote (take i acts)) = Fulfilled rs"
    and "atype (acts ! i) \<noteq> Some ''delay''"
    and "serviceUrl (acts ! i) = Some u" and "u \<noteq> []"
    and "conversation_id (acts ! i) = Some cid"
    and "remote i (acts ! i) = Rejected err"
  shows "fst (post creds remote acts) = Rejected err \<and>
    (snd (post creds remote acts) =
       snd (post creds remote (take i acts)) @ [SendToConversation i u cid, SendRejected i] \<or>
     snd (post creds remote acts) =
       snd (post creds remote (take i acts)) @ [NewClient i u, SendToConversation i u cid, SendRejected i])"
proof -
  obtain s' where run: "next_i creds remote acts 0 post_start =
       emit (snd (post creds remote (take i acts))) (next_i creds remote acts i s')"
    and ok: "cache_ok s'"
    using post_reached[of i acts creds remote rs] assms(1,2,3) by auto
  obtain client s1 nc where cc: "createClient creds i (serviceUrl (acts ! i)) s' = Inr (Some client, s1, nc)"
    and uri: "baseUri client = u" and nc: "nc = [] \<or> nc = [NewClient i u]"
    using createClient_at[OF ok assms(5,6)] by blast
  have "next_i creds remote acts i s' =
      (Rejected err, nc @ [SendToConversation i u cid, SendRejected i], s1)"
    using assms(2,4,7,8) cc uri by (simp add: next_i_send emit_def)
  then have "post creds remote acts =
      (Rejected err, snd (post creds remote (take i acts)) @ nc @ [SendToConversation i u cid, SendRejected i])"
    using post_emit[OF run] by simp
  then show ?thesis using nc by auto
qed

text \<open>
  C5: when \<open>post\<close> reaches an activity at position \<open>i\<close> that is not a delay: with an
  absent (or empty) \<open>serviceUrl\<close> the call rejects with the missing-serviceUrl error and
  does nothing at all for that activity; with a \<open>serviceUrl\<close> but no conversation id it
  rejects with the missing-conversation-id error, having at most constructed the client
  for the url. In both cases no network call is made for the activity or after it. The
  second case rests on the channel client fulfilling no send to the words \<open>__proto__\<close> and
  \<open>hasOwnProperty\<close> (\<open>reserved_sends_fail\<close>); the first does not.
\<close>

theorem post_missing_fields:
  assumes "i < length acts"
    and "fst (post creds remote (take i acts)) = Fulfilled rs"
    and "atype (acts ! i) \<noteq> Some ''delay''"
  shows "(\<not> truthy_str (serviceUrl (acts ! i)) \<longrightarrow>
            post creds remote acts = (Rejected missing_serviceUrl, snd (post creds remote (take i acts)))) \<and>
         (reserved_sends_fail remote acts \<and>
          serviceUrl (acts ! i) = Some u \<and> u \<noteq> [] \<and> conversation_id (acts ! i) = None \<longrightarrow>
            fst (post creds remote acts) = Rejected missing_conversation_id \<and>
            (snd (post creds remote acts) = snd (post creds remote (take i acts)) \<or>
             snd (post creds remote acts) = snd (post creds remote (take i acts)) @ [NewClient i u]))"
proof -
  obtain s' where run: "next_i creds remote acts 0 post_start =
       emit (snd (post creds remote (take i acts))) (next_i creds remote acts i s')"
    and ok: "reserved_sends_fail remote acts \<longrightarrow> cache_ok s'"
    using post_reached[of i acts creds remote rs] assms(1,2) by auto
  have a: "post creds remote acts = (Rejected missing_serviceUrl, snd (post creds remote (take i acts)))"
    if "\<not> truthy_str (serviceUrl (acts ! i))"
  proof -
    have "next_i creds remote acts i s' = (Rejected missing_serviceUrl, [], s')"
      using createClient_falsy[OF that] assms(1,3) by (simp add: next_i_send)
    then show ?thesis using post_emit[OF run] by simp
  qed
  have b: "fst (post creds remote acts) = Rejected missing_conversation_id \<and>
            (snd (post creds remote acts) = snd (post creds remote (take i acts)) \<or>
             snd (post creds remote acts) = snd (post creds remote (take i acts)) @ [NewClient i u])"
    if "reserved_sends_fail remote acts" "serviceUrl (acts ! i) = Some u" "u \<noteq> []"
      "conversation_id (acts ! i) = None"
  proof -
    note prem = that
    have ok': "cache_ok s'" using ok prem(1) by simp
    obtain client s1 nc where cc: "createClient creds i (serviceUrl (acts ! i)) s' = Inr (Some client, s1, nc)"
      and nc: "nc = [] \<or> nc = [NewClient i u]"
      using createClient_at[OF ok' prem(2,3)] by blast
    have "next_i creds remote acts i s' = (Rejected missing_conversation_id, nc, s1)"
      using assms(1,3) prem(4) cc by (simp add: next_i_send)
    then have "post creds remote acts =
        (Rejected missing_conversation_id, snd (post creds remote (take i acts)) @ nc)"
      using post_emit[OF run] by simp
    then show ?thesis using nc by auto
  qed
  show ?thesis using a b by blast
qed

text \<open>
  C4: as amended. When \<open>post\<close> reaches a delay at position \<open>i\<close>, it sets one timer, with
  the delay \<open>value || 1\<close>, and when the timer fires it appends the empty response and goes
  on to position \<open>i + 1\<close>; it constructs no client and makes no network call for the
  delay. The wait is \<open>value\<close> milliseconds when \<open>value\<close> is a number from 1 to 2147483647,
  and 1 millisecond when \<open>value\<close> is unspecified, zero, negative or above 2147483647.
\<close>

theorem post_delay:
  assumes "i < length acts"
    and "fst (post creds remote (take i acts)) = Fulfilled rs"
    and "atype (acts ! i) = Some ''delay''"
  shows "post creds remote (take (Suc i) acts) =
           (Fulfilled (rs @ [empty_response]),
            snd (post creds remote (take i acts)) @ [SetTimeout i (timer_delay (acts ! i)), TimerFired i]) \<and>
         prefix (snd (post creds remote (take (Suc i) acts))) (snd (post creds remote acts)) \<and>
         timer_delay (acts ! i) = (if truthy (avalue (acts ! i)) then avalue (acts ! i) else JNum 1) \<and>
         (avalue (acts ! i) = JNum n \<longrightarrow>
            delay_wait (acts ! i) = Some (if 1 \<le> n \<and> n \<le> 2147483647 then n else 1)) \<and>
         (avalue (acts ! i) = JUndefined \<or> avalue (acts ! i) = JNull \<longrightarrow>
            delay_wait (acts ! i) = Some 1)"
proof -
  let ?ev = "[SetTimeout i (timer_delay (acts ! i)), TimerFired i]"
  let ?acts' = "take (Suc i) acts"
  have ti: "take i ?acts' = take i acts" by (simp add: min_def)
  have len: "length ?acts' = Suc i" using assms(1) by simp
  have il: "i \<le> length ?acts'" using len by linarith
  have reached: "fst (post creds remote (take i ?acts')) = Fulfilled rs"
    using assms(2) ti by metis
  have nth: "?acts' ! i = acts ! i" by simp
  obtain s' where run: "next_i creds remote ?acts' 0 post_start =
       emit (snd (post creds remote (take i acts))) (next_i creds remote ?acts' i s')"
    and rs: "responses s' = rs"
    using post_reached[OF il reached] ti by metis
  have "next_i creds remote ?acts' i s' =
      (Fulfilled (rs @ [empty_response]), ?ev, s'\<lparr>responses := responses s' @ [empty_response]\<rparr>)"
    using assms(3) len rs by (simp add: next_i_delay next_i_done emit_def)
  then have one: "post creds remote ?acts' =
      (Fulfilled (rs @ [empty_response]), snd (post creds remote (take i acts)) @ ?ev)"
    using post_emit[OF run] by simp
  obtain s'' where run2: "next_i creds remote acts 0 post_start =
       emit (snd (post creds remote (take i acts))) (next_i creds remote acts i s'')"
    using post_reached[of i acts creds remote rs] assms(1,2) by auto
  obtain out evs t where rest: "next_i creds remote acts (Suc i)
      (s''\<lparr>responses := responses s'' @ [empty_response]\<rparr>) = (out, evs, t)"
    by (cases "next_i creds remote acts (Suc i) (s''\<lparr>responses := responses s'' @ [empty_response]\<rparr>)") auto
  have "next_i creds remote acts i s'' = (out, ?ev @ evs, t)"
    using assms(1,3) rest by (simp add: next_i_delay emit_def)
  then have "snd (post creds remote acts) = (snd (post creds remote (take i acts)) @ ?ev) @ evs"
    using post_emit[OF run2] by simp
  then have two: "prefix (snd (post creds remote ?acts')) (snd (post creds remote acts))"
    using one by (simp add: prefix_def)
  have three: "timer_delay (acts ! i) = (if truthy (avalue (acts ! i)) then avalue (acts ! i) else JNum 1)"
    by (simp add: timer_delay_def js_or_def)
  have four: "delay_wait (acts ! i) = Some (if 1 \<le> n \<and> n \<le> 2147483647 then n else 1)"
    if "avalue (acts ! i) = JNum n"
    using that by (simp add: delay_wait_def timer_delay_def js_or_def TIMEOUT_MAX_def)
  have five: "delay_wait (acts ! i) = Some 1"
    if "avalue (acts ! i) = JUndefined \<or> avalue (acts ! i) = JNull"
    using that by (auto simp: delay_wait_def timer_delay_def js_or_def)
  show ?thesis using one two three four five by blast
qed

text \<open>
  C8: in one call of \<open>post\<close>, at most one client is constructed for any url, however many
  activities are sent to it; and every send goes to the url of its activity through a
  client constructed in this same call (exactly one construction for that url among the
  events of the call): the cache starts empty in every call and nothing is carried over.
  This rests on the channel client fulfilling no send to the words \<open>__proto__\<close> and
  \<open>hasOwnProperty\<close> (\<open>reserved_sends_fail\<close>), the two keys at which the cache object is not
  a dictionary.
\<close>

theorem post_one_client_per_url:
  assumes "reserved_sends_fail remote acts"
  shows "length (filter (constructs u) (snd (post creds remote acts))) \<le> 1 \<and>
   (SendToConversation i u c \<in> set (snd (post creds remote acts)) \<longrightarrow>
      serviceUrl (acts ! i) = Some u \<and>
      length (filter (constructs u) (snd (post creds remote acts))) = 1)"
proof -
  let ?evs = "snd (post creds remote acts)"
  have le: "length (filter (constructs u) ?evs) \<le> 1"
    using next_i_constructs[OF assms, of post_start u creds 0] cache_ok_start
    by (simp add: snd_post split: if_splits)
  have "serviceUrl (acts ! i) = Some u \<and> length (filter (constructs u) ?evs) = 1"
    if "SendToConversation i u c \<in> set ?evs"
  proof -
    have "serviceUrl (acts ! i) = Some u \<and> (\<exists>e \<in> set ?evs. constructs u e)"
      using next_i_send_event[OF assms, of post_start i u c creds 0] that cache_ok_start
      by (simp add: snd_post post_start_def)
    moreover have "0 < length (filter (constructs u) ?evs)" if "\<exists>e \<in> set ?evs. constructs u e"
      using that by (simp add: filter_empty_conv)
    ultimately have "serviceUrl (acts ! i) = Some u" "0 < length (filter (constructs u) ?evs)"
      by blast+
    then show ?thesis using le by linarith
  qed
  then show ?thesis using le by blast
qed

section \<open>Properties of the inbound adapter and of the sample bot\<close>

lemma authorization_header_body [simp]:
  "authorization_header (req\<lparr>body := b\<rparr>) = authorization_header req"
  by (simp add: authorization_header_def)

text \<open>
  C3: when the token validator rejects the request, \<open>processRequest\<close> logs the error and
  sends 401, and that is all it does: the receive-handler is not invoked. The same holds
  for the whole listen handler, whether the transport had parsed the body or the adapter
  parsed it from the stream.
\<close>

theorem unauthorized_401:
  assumes "validate activity (authorization_header req) (credentialsProvider this) = Rejected err"
  shows "processRequest this validate activity req =
           ([AssertValidActivity activity (authorization_header req), ConsoleLog err, ResSend 401 JUndefined], None) \<and>
         (body req = Some activity \<longrightarrow>
            listen this validate parse req =
              ([AssertValidActivity activity (authorization_header req), ConsoleLog err, ResSend 401 JUndefined], None)) \<and>
         (body req = None \<and> ended req \<and> parse (concat (chunks req)) = Inr activity \<longrightarrow>
            listen this validate parse req =
              ([JsonParse (concat (chunks req)), AssertValidActivity activity (authorization_header req),
                ConsoleLog err, ResSend 401 JUndefined], None))"
  using assms by (simp add: processRequest_def listen_def Let_def)

text \<open>
  C6: for a request that passes token validation, with a handler registered: when the
  handler completes, the adapter sends 202 with no body, whatever replies the handler
  produced; when the handler raises the error \<open>Error(m)\<close>, the adapter sends 500 with the
  message \<open>m\<close> as body.
\<close>

theorem handler_outcome_status:
  assumes "validate activity (authorization_header req) (credentialsProvider this) = Fulfilled ()"
    and "onReceive this = Some receive"
  shows "(receive activity = (replies, Fulfilled ()) \<longrightarrow>
            processRequest this validate activity req =
              ([AssertValidActivity activity (authorization_header req), OnReceive activity,
                ResSend 202 JUndefined], None)) \<and>
         (receive activity = (replies, Rejected (JError m)) \<longrightarrow>
            processRequest this validate activity req =
              ([AssertValidActivity activity (authorization_header req), OnReceive activity,
                ResSend 500 (JStr m)], None))"
  using assms by (simp add: processRequest_def Let_def send_500_def)

lemma processRequest_no_parse:
  "filter is_JsonParse (fst (processRequest this validate activity req)) = []"
  by (simp add: processRequest_def Let_def send_500_def
      split: promise.splits option.splits prod.splits sum.splits)

text \<open>
  C7: when the transport has not parsed the body and the streamed data does not parse,
  the listen handler sends no status and does not invoke the receive-handler: its only
  event is the call of \<open>JSON.parse\<close>, whose exception leaves the adapter uncaught. (Before
  the stream has ended it does nothing.) When the transport has parsed the body, the
  handler is \<open>processRequest\<close> on that body, and \<open>JSON.parse\<close> is not called.
\<close>

theorem listen_parse:
  "(body req = None \<and> ended req \<and> parse (concat (chunks req)) = Inl err \<longrightarrow>
      listen this validate parse req = ([JsonParse (concat (chunks req))], Some err)) \<and>
   (body req = None \<and> \<not> ended req \<longrightarrow> listen this validate parse req = ([], None)) \<and>
   (body req = Some activity \<longrightarrow>
      listen this validate parse req = processRequest this validate activity req \<and>
      filter is_JsonParse (fst (listen this validate parse req)) = [])"
  by (simp add: listen_def Let_def processRequest_no_parse)

text \<open>
  C9: for a \<open>conversationUpdate\<close> activity whose \<open>membersAdded\<close> is absent or empty, the
  handler of the sample bot throws a TypeError (it reads \<open>membersAdded[0].id\<close>), having
  replied nothing; so a request with such an activity that passes token validation is
  answered with 500 and the TypeError's message, not with 202.
\<close>

theorem conversationUpdate_without_members:
  assumes "atype a = Some ''conversationUpdate''"
    and "membersAdded a = None \<or> membersAdded a = Some []"
  shows "bot_onReceive a = ([], Rejected (if membersAdded a = None then cannot_read_0 else cannot_read_id)) \<and>
         (validate a (authorization_header req) (credentialsProvider (sample_adapter settings)) = Fulfilled () \<longrightarrow>
            processRequest (sample_adapter settings) validate a req =
              ([AssertValidActivity a (authorization_header req), OnReceive a,
                ResSend 500 (if membersAdded a = None
                             then JStr ''Cannot read property '0' of undefined''
                             else JStr ''Cannot read property 'id' of undefined'')], None))"
  using assms
  by (auto simp: bot_onReceive_def message_replies_def processRequest_def Let_def send_500_def
      sample_adapter_def cannot_read_0_def cannot_read_id_def)

section \<open>The properties at the example inputs\<close>

lemmas post_eval = post_def post_start_def next_i.simps createClient_def conversation_id_def
  hasOwnProperty_def set_property_def get_property_def
  truthy_str_def emit_def Let_def result_or_empty_def timer_delay_def js_or_def
  example_credentials_def example_message_def example_delay_def example_batch_def
  remote_ok_def remote_failing_at_def empty_response_def

lemmas reserved_eval = reserved_sends_fail_def to_reserved_key_def reserved_key_def upt_rec
  example_batch_def example_message_def example_delay_def remote_ok_def remote_failing_at_def

lemmas inbound_eval = processRequest_def listen_def send_500_def authorization_header_def Let_def
  example_validate_def example_parse_def example_request_def example_handler_def
  example_throwing_handler_def example_adapter_def BotFrameworkAdapter_def
  example_message_def example_update_def sample_adapter_def

theorem post_in_order_witness:
  "fst (post example_credentials remote_ok example_batch) =
     Fulfilled [\<lparr>resource_id = Some ''r0''\<rparr>, empty_response, empty_response] \<and>
   marks (snd (post example_credentials remote_ok example_batch)) =
     [Started 0, Completed 0, Started 1, Completed 1, Started 2, Completed 2] \<and>
   marks (snd (post example_credentials remote_ok example_batch)) ! 2 = Started (Suc 0) \<and>
   marks (snd (post example_credentials remote_ok example_batch)) ! (2 - 1) = Completed 0"
proof -
  let ?ms = "marks (snd (post example_credentials remote_ok example_batch))"
  have h: "fst (post example_credentials remote_ok example_batch) =
     Fulfilled [\<lparr>resource_id = Some ''r0''\<rparr>, empty_response, empty_response]"
    by (simp add: post_eval)
  have n: "schedule_from 0 (length example_batch) =
     [Started 0, Completed 0, Started 1, Completed 1, Started 2, Completed 2]"
    by (simp add: schedule_from_def example_batch_def upt_rec)
  have m: "?ms ! 2 = Started (Suc 0)" "2 < length ?ms"
    by (simp_all add: post_eval)
  note r = post_in_order[of example_credentials remote_ok example_batch 2 0
        "[\<lparr>resource_id = Some ''r0''\<rparr>, empty_response, empty_response]"]
  have a: "?ms = [Started 0, Completed 0, Started 1, Completed 1, Started 2, Completed 2]"
    using r h n by simp
  have b: "?ms ! (2 - 1) = Completed 0"
    using r m by blast
  show ?thesis using h a m(1) b by blast
qed

theorem post_remote_failure_witness:
  "fst (post example_credentials (remote_failing_at 2) (take 2 example_batch)) =
     Fulfilled [\<lparr>resource_id = Some ''r0''\<rparr>, empty_response] \<and>
   fst (post example_credentials (remote_failing_at 2) example_batch) = Rejected (JError ''ECONNRESET'') \<and>
   snd (post example_credentials (remote_failing_at 2) example_batch) =
     [NewClient 0 ''https://a'', SendToConversation 0 ''https://a'' ''c1'', SendFulfilled 0,
      SetTimeout 1 (JNum 50), TimerFired 1,
      SendToConversation 2 ''https://a'' ''c1'', SendRejected 2]"
proof -
  have h: "fst (post example_credentials (remote_failing_at 2) (take 2 example_batch)) =
     Fulfilled [\<lparr>resource_id = Some ''r0''\<rparr>, empty_response]"
    by (simp add: post_eval)
  have e: "snd (post example_credentials (remote_failing_at 2) (take 2 example_batch)) =
     [NewClient 0 ''https://a'', SendToConversation 0 ''https://a'' ''c1'', SendFulfilled 0,
      SetTimeout 1 (JNum 50), TimerFired 1]"
    by (simp add: post_eval)
  have c: "NewClient 2 ''https://a'' \<notin> set (snd (post example_credentials (remote_failing_at 2) example_batch))"
    by (simp add: post_eval)
  have "fst (post example_credentials (remote_failing_at 2) example_batch) = Rejected (JError ''ECONNRESET'') \<and>
    (snd (post example_credentials (remote_failing_at 2) example_batch) =
       snd (post example_credentials (remote_failing_at 2) (take 2 example_batch)) @
         [SendToConversation 2 ''https://a'' ''c1'', SendRejected 2] \<or>
     snd (post example_credentials (remote_failing_at 2) example_batch) =
       snd (post example_credentials (remote_failing_at 2) (take 2 example_batch)) @
         [NewClient 2 ''https://a'', SendToConversation 2 ''https://a'' ''c1'', SendRejected 2])"
    by (rule post_remote_failure[OF _ _ h])
      (simp_all add: example_batch_def example_message_def example_delay_def remote_failing_at_def
        remote_ok_def conversation_id_def truthy_str_def reserved_sends_fail_def
        to_reserved_key_def reserved_key_def upt_rec)
  then show ?thesis using h e c by auto
qed

theorem post_missing_fields_witness:
  "post example_credentials remote_ok [example_delay (JNum 50), example_message None (Some ''c1'')] =
     (Rejected missing_serviceUrl, [SetTimeout 0 (JNum 50), TimerFired 0]) \<and>
   fst (post example_credentials remote_ok [example_delay (JNum 50), example_message (Some ''https://a'') None]) =
     Rejected missing_conversation_id \<and>
   filter is_send (snd (post example_credentials remote_ok
     [example_delay (JNum 50), example_message (Some ''https://a'') None])) = []"
proof -
  let ?a = "[example_delay (JNum 50), example_message None (Some ''c1'')]"
  let ?b = "[example_delay (JNum 50), example_message (Some ''https://a'') None]"
  have ha: "fst (post example_credentials remote_ok (take 1 ?a)) = Fulfilled [empty_response]"
    by (simp add: post_eval)
  have hb: "fst (post example_credentials remote_ok (take 1 ?b)) = Fulfilled [empty_response]"
    by (simp add: post_eval)
  have ea: "snd (post example_credentials remote_ok (take 1 ?a)) = [SetTimeout 0 (JNum 50), TimerFired 0]"
    by (simp add: post_eval)
  have eb: "snd (post example_credentials remote_ok (take 1 ?b)) = [SetTimeout 0 (JNum 50), TimerFired 0]"
    by (simp add: post_eval)
  have 1: "post example_credentials remote_ok ?a =
      (Rejected missing_serviceUrl, snd (post example_credentials remote_ok (take 1 ?a)))"
    using post_missing_fields[of 1 ?a example_credentials remote_ok "[empty_response]" "''x''"] ha
    by (simp add: example_message_def example_delay_def truthy_str_def)
  have 2: "fst (post example_credentials remote_ok ?b) = Rejected missing_conversation_id \<and>
      (snd (post example_credentials remote_ok ?b) = snd (post example_credentials remote_ok (take 1 ?b)) \<or>
       snd (post example_credentials remote_ok ?b) =
         snd (post example_credentials remote_ok (take 1 ?b)) @ [NewClient 1 ''https://a''])"
    using post_missing_fields[of 1 ?b example_credentials remote_ok "[empty_response]" "''https://a''"] hb
    by (simp add: example_message_def example_delay_def truthy_str_def conversation_id_def
        reserved_sends_fail_def to_reserved_key_def reserved_key_def remote_ok_def upt_rec)
  show ?thesis using 1 2 ea eb by auto
qed

theorem post_delay_witness:
  "post example_credentials remote_ok (take 2 example_batch) =
     (Fulfilled [\<lparr>resource_id = Some ''r0''\<rparr>, empty_response],
      [NewClient 0 ''https://a'', SendToConversation 0 ''https://a'' ''c1'', SendFulfilled 0,
       SetTimeout 1 (JNum 50), TimerFired 1]) \<and>
   prefix (snd (post example_credentials remote_ok (take 2 example_batch)))
     (snd (post example_credentials remote_ok example_batch)) \<and>
   delay_wait (example_batch ! 1) = Some 50 \<and>
   delay_wait ([example_delay (JNum (- 5))] ! 0) = Some 1 \<and>
   delay_wait ([example_delay JUndefined] ! 0) = Some 1"
proof -
  have h: "fst (post example_credentials remote_ok (take 1 example_batch)) =
      Fulfilled [\<lparr>resource_id = Some ''r0''\<rparr>]"
    by (simp add: post_eval)
  have e: "snd (post example_credentials remote_ok (take 1 example_batch)) =
      [NewClient 0 ''https://a'', SendToConversation 0 ''https://a'' ''c1'', SendFulfilled 0]"
    by (simp add: post_eval)
  have d: "timer_delay (example_batch ! 1) = JNum 50"
    by (simp add: example_batch_def example_delay_def timer_delay_def js_or_def)
  have v: "avalue (example_batch ! 1) = JNum 50"
    by (simp add: example_batch_def example_delay_def)
  have t: "take (Suc 1) example_batch = take 2 example_batch"
    by (simp only: Suc_1)
  have il: "1 < length example_batch" by (simp add: example_batch_def)
  have ty: "atype (example_batch ! 1) = Some ''delay''"
    by (simp add: example_batch_def example_delay_def)
  note r = post_delay[OF il h ty, of 50]
  have a: "post example_credentials remote_ok (take 2 example_batch) =
     (Fulfilled [\<lparr>resource_id = Some ''r0''\<rparr>, empty_response],
      [NewClient 0 ''https://a'', SendToConversation 0 ''https://a'' ''c1'', SendFulfilled 0,
       SetTimeout 1 (JNum 50), TimerFired 1])"
    using r[THEN conjunct1] unfolding t e d by simp
  have c: "prefix (snd (post example_credentials remote_ok (take 2 example_batch)))
     (snd (post example_credentials remote_ok example_batch))"
    using r[THEN conjunct2, THEN conjunct1] unfolding t .
  have w1: "delay_wait (example_batch ! 1) = Some 50"
    using r v by simp
  have h0: "fst (post example_credentials remote_ok (take 0 [example_delay v'])) = Fulfilled []" for v'
    by (simp add: post_eval)
  have w2: "delay_wait ([example_delay (JNum (- 5))] ! 0) = Some 1"
    using post_delay[OF _ h0, of "JNum (- 5)" "- 5"] by (simp add: example_delay_def)
  have w3: "delay_wait ([example_delay JUndefined] ! 0) = Some 1"
    using post_delay[OF _ h0, of JUndefined 0] by (simp add: example_delay_def)
  show ?thesis using a c w1 w2 w3 by blast
qed

text \<open>
  C4: as stated, the claim fails for a \<open>value\<close> above the range of the timer: for a delay
  with \<open>value = 2147483648\<close> the dispatcher calls \<open>setTimeout\<close> with that number and the wait
  is 1 millisecond, not \<open>value\<close> milliseconds.
\<close>

theorem delay_above_timer_range_counterexample:
  "post example_credentials remote_ok [example_delay (JNum 2147483648)] =
     (Fulfilled [empty_response], [SetTimeout 0 (JNum 2147483648), TimerFired 0]) \<and>
   delay_wait (example_delay (JNum 2147483648)) = Some 1 \<and>
   delay_wait (example_delay (JNum 2147483648)) \<noteq> Some 2147483648"
  by (simp add: post_eval delay_wait_def TIMEOUT_MAX_def)

theorem post_one_client_per_url_witness:
  "SendToConversation 2 ''https://a'' ''c1'' \<in> set (snd (post example_credentials remote_ok example_batch)) \<and>
   length (filter (constructs ''https://a'') (snd (post example_credentials remote_ok example_batch))) = 1 \<and>
   length (filter is_send (snd (post example_credentials remote_ok example_batch))) = 2"
proof -
  have m: "SendToConversation 2 ''https://a'' ''c1'' \<in> set (snd (post example_credentials remote_ok example_batch))"
    by (simp add: post_eval)
  have s: "length (filter is_send (snd (post example_credentials remote_ok example_batch))) = 2"
    by (simp add: post_eval)
  show ?thesis
    using post_one_client_per_url[of remote_ok example_batch "''https://a''" example_credentials 2 "''c1''"] m s
    by (simp add: reserved_eval)
qed

theorem unauthorized_401_witness:
  "listen (example_adapter example_handler) example_validate example_parse
     (example_request (Some (example_message None None)) None []) =
     ([AssertValidActivity (example_message None None) [], ConsoleLog (JError ''Unauthorized''),
       ResSend 401 JUndefined], None) \<and>
   listen (example_adapter example_handler) example_validate example_parse
     (example_request None (Some ''Bearer bad'') [''{'', ''}'']) =
     ([JsonParse ''{}'', AssertValidActivity (example_message None None) ''Bearer bad'',
       ConsoleLog (JError ''Unauthorized''), ResSend 401 JUndefined], None)"
proof -
  let ?r1 = "example_request (Some (example_message None None)) None []"
  let ?r2 = "example_request None (Some ''Bearer bad'') [''{'', ''}'']"
  let ?A = "example_adapter example_handler"
  let ?a = "example_message None None"
  have h1: "example_validate ?a (authorization_header ?r1) (credentialsProvider ?A) =
      Rejected (JError ''Unauthorized'')"
    by (simp add: inbound_eval)
  have h2: "example_validate ?a (authorization_header ?r2) (credentialsProvider ?A) =
      Rejected (JError ''Unauthorized'')"
    by (simp add: inbound_eval)
  have 1: "listen ?A example_validate example_parse ?r1 =
      ([AssertValidActivity ?a (authorization_header ?r1), ConsoleLog (JError ''Unauthorized''),
        ResSend 401 JUndefined], None)"
    using unauthorized_401[of example_validate ?a ?r1 ?A "JError ''Unauthorized''" example_parse] h1
    by (simp add: example_request_def)
  have 2: "listen ?A example_validate example_parse ?r2 =
      ([JsonParse (concat (chunks ?r2)), AssertValidActivity ?a (authorization_header ?r2),
        ConsoleLog (JError ''Unauthorized''), ResSend 401 JUndefined], None)"
    using unauthorized_401[of example_validate ?a ?r2 ?A "JError ''Unauthorized''" example_parse] h2
    by (simp add: example_request_def example_parse_def)
  have a1: "authorization_header ?r1 = []" by (simp add: example_request_def authorization_header_def)
  have a2: "authorization_header ?r2 = ''Bearer bad''"
    by (simp add: example_request_def authorization_header_def)
  have c: "concat (chunks ?r2) = ''{}''" by (simp add: example_request_def)
  show ?thesis using 1 2 unfolding a1 a2 c by simp
qed

theorem handler_outcome_status_witness:
  "processRequest (example_adapter example_handler) example_validate (example_message None None)
     (example_request (Some (example_message None None)) (Some ''Bearer good'') []) =
     ([AssertValidActivity (example_message None None) ''Bearer good'',
       OnReceive (example_message None None), ResSend 202 JUndefined], None) \<and>
   processRequest (example_adapter example_throwing_handler) example_validate (example_message None None)
     (example_request (Some (example_message None None)) (Some ''Bearer good'') []) =
     ([AssertValidActivity (example_message None None) ''Bearer good'',
       OnReceive (example_message None None), ResSend 500 (JStr ''boom'')], None)"
proof -
  let ?r = "example_request (Some (example_message None None)) (Some ''Bearer good'') []"
  let ?a = "example_message None None"
  have h1: "example_validate ?a (authorization_header ?r)
      (credentialsProvider (example_adapter example_handler)) = Fulfilled ()"
    by (simp add: inbound_eval)
  have h2: "example_validate ?a (authorization_header ?r)
      (credentialsProvider (example_adapter example_throwing_handler)) = Fulfilled ()"
    by (simp add: inbound_eval)
  have r1: "onReceive (example_adapter example_handler) = Some example_handler"
    by (simp add: example_adapter_def)
  have r2: "onReceive (example_adapter example_throwing_handler) = Some example_throwing_handler"
    by (simp add: example_adapter_def)
  have ah: "authorization_header ?r = ''Bearer good''"
    by (simp add: example_request_def authorization_header_def)
  have 1: "processRequest (example_adapter example_handler) example_validate ?a ?r =
      ([AssertValidActivity ?a (authorization_header ?r), OnReceive ?a, ResSend 202 JUndefined], None)"
    using handler_outcome_status[of example_validate ?a ?r "example_adapter example_handler"
        example_handler "[TextReply ''ok'']" "''x''"] h1 r1
    by (simp add: example_handler_def)
  have 2: "processRequest (example_adapter example_throwing_handler) example_validate ?a ?r =
      ([AssertValidActivity ?a (authorization_header ?r), OnReceive ?a, ResSend 500 (JStr ''boom'')], None)"
    using handler_outcome_status[of example_validate ?a ?r "example_adapter example_throwing_handler"
        example_throwing_handler "[]" "''boom''"] h2 r2
    by (simp add: example_throwing_handler_def)
  show ?thesis using 1 2 unfolding ah by simp
qed

theorem listen_parse_witness:
  "listen (example_adapter example_handler) example_validate example_parse
     (example_request None (Some ''Bearer good'') [''{'', ''x'']) =
     ([JsonParse ''{x''], Some (JError ''Unexpected token'')) \<and>
   filter is_JsonParse (fst (listen (example_adapter example_handler) example_validate example_parse
     (example_request (Some (example_message None None)) (Some ''Bearer good'') [''{'', ''x'']))) = []"
proof -
  let ?r1 = "example_request None (Some ''Bearer good'') [''{'', ''x'']"
  let ?r2 = "example_request (Some (example_message None None)) (Some ''Bearer good'') [''{'', ''x'']"
  let ?A = "example_adapter example_handler"
  have c: "concat (chunks ?r1) = ''{x''" by (simp add: example_request_def)
  have 1: "listen ?A example_validate example_parse ?r1 =
      ([JsonParse (concat (chunks ?r1))], Some (JError ''Unexpected token''))"
    using listen_parse[of ?r1 example_parse "JError ''Unexpected token''" ?A example_validate
        "example_message None None"]
    by (simp add: example_request_def example_parse_def)
  have b: "body ?r2 = Some (example_message None None)" by (simp add: example_request_def)
  have 2: "filter is_JsonParse (fst (listen ?A example_validate example_parse ?r2)) = []"
    using listen_parse[of ?r2 example_parse "JError ''Unexpected token''" ?A example_validate
        "example_message None None"] b
    by blast
  show ?thesis using 1 2 unfolding c by simp
qed

theorem conversationUpdate_without_members_witness:
  "bot_onReceive (example_update None) = ([], Rejected cannot_read_0) \<and>
   bot_onReceive (example_update (Some [])) = ([], Rejected cannot_read_id) \<and>
   processRequest (sample_adapter None) example_validate (example_update (Some []))
     (example_request (Some (example_update (Some []))) (Some ''Bearer good'') []) =
     ([AssertValidActivity (example_update (Some [])) ''Bearer good'', OnReceive (example_update (Some [])),
       ResSend 500 (JStr ''Cannot read property 'id' of undefined'')], None)"
proof -
  let ?r = "example_request (Some (example_update (Some []))) (Some ''Bearer good'') []"
  have v: "example_validate (example_update (Some [])) (authorization_header ?r)
      (credentialsProvider (sample_adapter None)) = Fulfilled ()"
    by (simp add: inbound_eval)
  have ah: "authorization_header ?r = ''Bearer good''"
    by (simp add: example_request_def authorization_header_def)
  have m: "atype (example_update ms) = Some ''conversationUpdate''" "membersAdded (example_update ms) = ms" for ms
    by (simp_all add: example_update_def)
  have 1: "bot_onReceive (example_update None) = ([], Rejected cannot_read_0)"
    using conversationUpdate_without_members[of "example_update None" example_validate ?r None] m
    by simp
  have 2: "bot_onReceive (example_update (Some [])) = ([], Rejected cannot_read_id) \<and>
    processRequest (sample_adapter None) example_validate (example_update (Some [])) ?r =
     ([AssertValidActivity (example_update (Some [])) (authorization_header ?r), OnReceive (example_update (Some [])),
       ResSend 500 (JStr ''Cannot read property 'id' of undefined'')], None)"
    using conversationUpdate_without_members[of "example_update (Some [])" example_validate ?r None] m v
    by simp
  show ?thesis using 1 2 unfolding ah by simp
qed

subsection \<open>The cache at the keys \<open>__proto__\<close> and \<open>hasOwnProperty\<close>\<close>

text \<open>
  Were a send to \<open>__proto__\<close> fulfilled, the next activity for \<open>__proto__\<close> would construct a
  second client: the first one became the prototype of the cache, not an own property.
\<close>

lemma proto_key_is_not_cached:
  "post example_credentials remote_ok
     [example_message (Some ''__proto__'') (Some ''c1''), example_message (Some ''__proto__'') (Some ''c1'')] =
   (Fulfilled [\<lparr>resource_id = Some ''r0''\<rparr>, empty_response],
    [NewClient 0 ''__proto__'', SendToConversation 0 ''__proto__'' ''c1'', SendFulfilled 0,
     NewClient 1 ''__proto__'', SendToConversation 1 ''__proto__'' ''c1'', SendFulfilled 1])"
  by (simp add: post_eval)

text \<open>
  Were a send to \<open>hasOwnProperty\<close> fulfilled, the next \<open>createClient\<close> would throw, and the
  promise of \<open>post\<close> would never settle.
\<close>

lemma hasOwnProperty_key_breaks_the_cache:
  "post example_credentials remote_ok
     [example_message (Some ''hasOwnProperty'') (Some ''c1''), example_message (Some ''https://a'') (Some ''c1'')] =
   (Pending,
    [NewClient 0 ''hasOwnProperty'', SendToConversation 0 ''hasOwnProperty'' ''c1'', SendFulfilled 0,
     Uncaught 1 cache_not_a_function])"
  by (simp add: post_eval)

end
